theory Spec2Isabelle
  imports Main "HOL-Library.Word"
begin

unbundle bit_operations_syntax

text \<open>
  The OAuth 2.0 authorization-code flow with PKCE of \<^emph>\<open>Sign in with Chutes\<close> for Next.js:
  the library \<^verbatim>\<open>lib/chutesAuth.ts\<close> and the route handlers for the callback, the session
  query and the logout. Each handler is a function from its request, the environment
  variables and the answers of the identity provider to its response and the list of
  network calls it made; the cookie store of the browser is a map that the response's
  cookie directives update.
\<close>

section \<open>JavaScript values\<close>

text \<open>
  A value read from the query string, a cookie or \<^verbatim>\<open>process.env\<close> is a string or
  absent (\<^verbatim>\<open>null\<close>/\<^verbatim>\<open>undefined\<close>): a \<^typ>\<open>string option\<close>. The handlers test such values
  with \<^verbatim>\<open>if (x)\<close>, \<^verbatim>\<open>!x\<close> and \<^verbatim>\<open>x || d\<close>, all of which treat the empty string like an
  absent value.
\<close>

definition truthy :: "string option \<Rightarrow> bool" where
  "truthy v = (case v of None \<Rightarrow> False | Some s \<Rightarrow> s \<noteq> [])"

text \<open>\<^verbatim>\<open>x || null\<close>\<close>

definition or_null :: "string option \<Rightarrow> string option" where
  "or_null v = (if truthy v then v else None)"

text \<open>\<^verbatim>\<open>x || d\<close> for a string default \<^verbatim>\<open>d\<close>\<close>

definition or_else :: "string option \<Rightarrow> string \<Rightarrow> string" where
  "or_else v d = (case v of None \<Rightarrow> d | Some s \<Rightarrow> if s = [] then d else s)"

section \<open>Cookies\<close>

text \<open>
  The browser's cookie jar maps a cookie name to its value. A response carries a list of
  \<^verbatim>\<open>res.cookies.set(name, value, { ...cookieBase, maxAge })\<close> directives; all of them
  use the same path \<^verbatim>\<open>/\<close>, so a name identifies a cookie. A directive whose \<^verbatim>\<open>maxAge\<close>
  is not positive expires the cookie at once (this is how the handlers clear cookies);
  any other directive stores the value.
\<close>

type_synonym cookie_jar = "string \<rightharpoonup> string"

record set_cookie =
  cookie_name :: string
  cookie_value :: string
  maxAge :: int

definition cookies_set :: "string \<Rightarrow> string \<Rightarrow> int \<Rightarrow> set_cookie" where
  "cookies_set n v a = \<lparr>cookie_name = n, cookie_value = v, maxAge = a\<rparr>"

definition apply_cookie :: "set_cookie \<Rightarrow> cookie_jar \<Rightarrow> cookie_jar" where
  "apply_cookie c jar =
     (if maxAge c \<le> 0 then jar(cookie_name c := None)
      else jar(cookie_name c \<mapsto> cookie_value c))"

definition apply_cookies :: "set_cookie list \<Rightarrow> cookie_jar \<Rightarrow> cookie_jar" where
  "apply_cookies cs jar = fold apply_cookie cs jar"

text \<open>\<^verbatim>\<open>cookieStore.get(name)?.value\<close>\<close>

definition cookie_get :: "cookie_jar \<Rightarrow> string \<Rightarrow> string option" where
  "cookie_get jar n = jar n"

section \<open>Responses\<close>

record UserInfo =
  sub :: string
  username :: "string option"
  email :: "string option"
  name :: "string option"
  created_at :: "string option"
  extension :: "(string \<times> string) list"

datatype body =
    IdpError string "string option"
  | ErrorMessage string
  | Redirect string
  | SignedIn "UserInfo option"
  | SignedOut
  | Ok

record response =
  status :: nat
  body :: body
  cookies :: "set_cookie list"

text \<open>\<^verbatim>\<open>NextResponse.json(b, { status })\<close>, with status 200 when none is given, and
  \<^verbatim>\<open>NextResponse.redirect(url)\<close> (status 307) before any cookie is set.\<close>

definition json_response :: "body \<Rightarrow> nat \<Rightarrow> response" where
  "json_response b s = \<lparr>status = s, body = b, cookies = []\<rparr>"

definition redirect_response :: "string \<Rightarrow> response" where
  "redirect_response url = \<lparr>status = 307, body = Redirect url, cookies = []\<rparr>"

definition set_on :: "response \<Rightarrow> set_cookie \<Rightarrow> response" where
  "set_on res c = res\<lparr>cookies := cookies res @ [c]\<rparr>"

section \<open>Configuration\<close>

text \<open>The variables of \<^verbatim>\<open>process.env\<close> that \<^verbatim>\<open>lib/chutesAuth.ts\<close> reads.\<close>

record environment =
  CHUTES_IDP_BASE_URL :: "string option"
  CHUTES_OAUTH_REDIRECT_URI :: "string option"
  NEXT_PUBLIC_APP_URL :: "string option"
  CHUTES_OAUTH_CLIENT_ID :: "string option"
  CHUTES_OAUTH_CLIENT_SECRET :: "string option"
  CHUTES_OAUTH_SCOPES :: "string option"

record OAuthConfig =
  idpBaseUrl :: string
  clientId :: string
  clientSecret :: string
  redirectUri :: string
  scopes :: string

definition IDP_BASE_URL :: "environment \<Rightarrow> string" where
  "IDP_BASE_URL env = or_else (CHUTES_IDP_BASE_URL env) ''https://api.chutes.ai''"

text \<open>\<^verbatim>\<open>s.replace(/\/$/, "")\<close>: one slash at the very end of the string is removed.\<close>

definition strip_trailing_slash :: "string \<Rightarrow> string" where
  "strip_trailing_slash s = (if s \<noteq> [] \<and> last s = CHR ''/'' then butlast s else s)"

definition callback_suffix :: string where
  "callback_suffix = ''/api/auth/chutes/callback''"

definition buildRedirectUri :: "environment \<Rightarrow> string option \<Rightarrow> string" where
  "buildRedirectUri env requestOrigin =
     (let envRedirect = CHUTES_OAUTH_REDIRECT_URI env;
          publicBase = NEXT_PUBLIC_APP_URL env
      in case or_null envRedirect of
           Some r \<Rightarrow> r
         | None \<Rightarrow>
            (case or_null publicBase of
               Some b \<Rightarrow> strip_trailing_slash b @ callback_suffix
             | None \<Rightarrow>
                (case or_null requestOrigin of
                   Some orig \<Rightarrow> strip_trailing_slash orig @ callback_suffix
                 | None \<Rightarrow> ''http://localhost:3000/api/auth/chutes/callback'')))"

definition missing_credentials :: string where
  "missing_credentials =
     ''Missing Chutes OAuth credentials. Set CHUTES_OAUTH_CLIENT_ID and CHUTES_OAUTH_CLIENT_SECRET.''"

text \<open>A thrown \<^verbatim>\<open>Error(message)\<close> is \<open>Inl message\<close>.\<close>

definition getOAuthConfig :: "environment \<Rightarrow> string option \<Rightarrow> string + OAuthConfig" where
  "getOAuthConfig env requestOrigin =
     (let cid = or_else (CHUTES_OAUTH_CLIENT_ID env) [];
          csecret = or_else (CHUTES_OAUTH_CLIENT_SECRET env) [];
          ruri = buildRedirectUri env requestOrigin;
          scs = or_else (CHUTES_OAUTH_SCOPES env) ''openid profile chutes:invoke''
      in if cid = [] \<or> csecret = [] then Inl missing_credentials
         else Inr \<lparr>idpBaseUrl = IDP_BASE_URL env, clientId = cid, clientSecret = csecret,
                   redirectUri = ruri, scopes = scs\<rparr>)"

section \<open>PKCE material\<close>

type_synonym byte = "8 word"

definition base64url_alphabet :: string where
  "base64url_alphabet = ''ABCDEFGHIJKLMNOPQRSTUVWXYZabcdefghijklmnopqrstuvwxyz0123456789-_''"

definition b64 :: "nat \<Rightarrow> char" where
  "b64 n = base64url_alphabet ! (n mod 64)"

text \<open>\<^verbatim>\<open>buffer.toString("base64url")\<close>: six bits per character, most significant first, no
  \<^verbatim>\<open>=\<close> appended to a final group of one or two bytes.\<close>

fun base64url :: "byte list \<Rightarrow> string" where
  "base64url (a # b # c # bs) =
     (let n = unat a * 65536 + unat b * 256 + unat c
      in b64 (n div 262144) # b64 (n div 4096) # b64 (n div 64) # b64 n # base64url bs)"
| "base64url [a, b] =
     (let n = unat a * 1024 + unat b * 4
      in [b64 (n div 4096), b64 (n div 64), b64 n])"
| "base64url [a] = (let n = unat a * 16 in [b64 (n div 64), b64 n])"
| "base64url [] = []"

text \<open>The bytes \<^verbatim>\<open>hash.update(str)\<close> reads from a string.\<close>

definition bytes_of :: "string \<Rightarrow> byte list" where
  "bytes_of s = map (\<lambda>c. of_nat (of_char c)) s"

record PkcePair =
  verifier :: string
  challenge :: string

text \<open>
  \<open>random\<close> is what \<^verbatim>\<open>crypto.randomBytes(32)\<close> returned, and \<open>sha256\<close> is the digest that
  \<^verbatim>\<open>crypto.createHash("sha256")\<close> computes (Node's library, not part of the repository).
\<close>

definition generatePkce :: "(byte list \<Rightarrow> byte list) \<Rightarrow> byte list \<Rightarrow> PkcePair" where
  "generatePkce sha256 random =
     (let v = base64url random;
          hash = sha256 (bytes_of v);
          c = base64url hash
      in \<lparr>verifier = v, challenge = c\<rparr>)"

section \<open>The identity provider\<close>

text \<open>
  A \<^verbatim>\<open>fetch\<close> either throws (no response) or gives a response with its \<^verbatim>\<open>ok\<close> flag and
  a body, on which \<^verbatim>\<open>res.json()\<close> either throws or gives the parsed value. The token
  endpoint's JSON is an object with the fields the code reads, or \<^verbatim>\<open>null\<close>.
\<close>

datatype 'a http_body = Unparsable string | Json 'a

datatype 'a fetch_result = NetworkError string | HttpResponse bool "'a http_body"

record token_json =
  access_token :: "string option"
  refresh_token :: "string option"
  expires_in :: "int option"
  token_type :: "string option"
  error :: "string option"
  error_description :: "string option"

record idp =
  token_endpoint :: "string \<Rightarrow> (string \<times> string) list \<Rightarrow> token_json option fetch_result"
  userinfo_endpoint :: "string \<Rightarrow> string \<Rightarrow> UserInfo option fetch_result"

text \<open>The network calls a handler made, in order.\<close>

datatype net_call = TokenPost string "(string \<times> string) list" | UserinfoGet string string

text \<open>\<^verbatim>\<open>json?.error_description || json?.error || "Token exchange failed"\<close>\<close>

definition exchange_error :: "token_json option \<Rightarrow> string" where
  "exchange_error json =
     (case json of
        None \<Rightarrow> ''Token exchange failed''
      | Some j \<Rightarrow>
         (case or_null (error_description j) of
            Some d \<Rightarrow> d
          | None \<Rightarrow> or_else (error j) ''Token exchange failed''))"

definition exchangeCodeForTokens ::
  "idp \<Rightarrow> string \<Rightarrow> string \<Rightarrow> OAuthConfig \<Rightarrow> net_call list \<times> (string + token_json option)" where
  "exchangeCodeForTokens p code codeVerifier config =
     (let tokenUrl = idpBaseUrl config @ ''/idp/token'';
          form = [(''grant_type'', ''authorization_code''), (''code'', code),
                  (''redirect_uri'', redirectUri config), (''client_id'', clientId config),
                  (''client_secret'', clientSecret config), (''code_verifier'', codeVerifier)]
      in ([TokenPost tokenUrl form],
          (case token_endpoint p tokenUrl form of
             NetworkError msg \<Rightarrow> Inl msg
           | HttpResponse ok b \<Rightarrow>
              (case b of
                 Unparsable msg \<Rightarrow> Inl msg
               | Json json \<Rightarrow> if \<not> ok then Inl (exchange_error json) else Inr json))))"

definition fetchUserInfo ::
  "idp \<Rightarrow> OAuthConfig \<Rightarrow> string \<Rightarrow> net_call list \<times> (string + UserInfo option)" where
  "fetchUserInfo p config accessToken =
     (let url = idpBaseUrl config @ ''/idp/userinfo''
      in ([UserinfoGet url (''Bearer '' @ accessToken)],
          (case userinfo_endpoint p url (''Bearer '' @ accessToken) of
             NetworkError msg \<Rightarrow> Inl msg
           | HttpResponse ok b \<Rightarrow>
              if \<not> ok then Inr None
              else (case b of Unparsable msg \<Rightarrow> Inl msg | Json u \<Rightarrow> Inr u))))"

section \<open>Callback route\<close>

text \<open>The request: the four query parameters, the origin of its URL and its cookies.\<close>

record request =
  q_code :: "string option"
  q_state :: "string option"
  q_error :: "string option"
  q_error_description :: "string option"
  origin :: string
  req_cookies :: cookie_jar

text \<open>The message of the \<^verbatim>\<open>TypeError\<close> that reading \<^verbatim>\<open>tokenResult.access_token\<close> throws when
  the token endpoint answered with the JSON value \<^verbatim>\<open>null\<close>.\<close>

definition null_token_result :: string where
  "null_token_result = ''Cannot read properties of null (reading 'access_token')''"

text \<open>The part of the handler after \<^verbatim>\<open>exchangeCodeForTokens\<close> has returned an object
  (from \<^verbatim>\<open>const accessToken = tokenResult.access_token\<close> to \<^verbatim>\<open>return res\<close>). The failure
  of \<^verbatim>\<open>fetchUserInfo\<close> is caught and ignored there. \<open>stringify\<close> is \<^verbatim>\<open>JSON.stringify\<close>.\<close>

definition materialize ::
  "idp \<Rightarrow> (UserInfo \<Rightarrow> string) \<Rightarrow> request \<Rightarrow> OAuthConfig \<Rightarrow> token_json
     \<Rightarrow> response \<times> net_call list" where
  "materialize p stringify req config tokenResult =
     (let accessToken = access_token tokenResult;
          refreshToken = refresh_token tokenResult;
          expiresIn = (case expires_in tokenResult of None \<Rightarrow> 3600 | Some n \<Rightarrow> n)
      in case or_null accessToken of
           None \<Rightarrow> (json_response (ErrorMessage ''No access token returned'') 500, [])
         | Some tok \<Rightarrow>
            (let res = redirect_response (origin req @ ''/'');
                 res = set_on res (cookies_set ''chutes_access_token'' tok expiresIn);
                 res = (case or_null refreshToken of
                          Some r \<Rightarrow> set_on res (cookies_set ''chutes_refresh_token'' r (60 * 60 * 24 * 30))
                        | None \<Rightarrow> res);
                 (calls, userinfo) = fetchUserInfo p config tok;
                 res = (case userinfo of
                          Inr (Some u) \<Rightarrow> set_on res (cookies_set ''chutes_userinfo'' (stringify u) expiresIn)
                        | _ \<Rightarrow> res);
                 res = set_on res (cookies_set ''chutes_oauth_state'' [] 0);
                 res = set_on res (cookies_set ''chutes_pkce_verifier'' [] 0)
             in (res, calls)))"

definition callback_GET ::
  "environment \<Rightarrow> idp \<Rightarrow> (UserInfo \<Rightarrow> string) \<Rightarrow> request \<Rightarrow> response \<times> net_call list" where
  "callback_GET env p stringify req =
     (case or_null (q_error req) of
        Some e \<Rightarrow> (json_response (IdpError e (q_error_description req)) 400, [])
      | None \<Rightarrow>
         (case getOAuthConfig env (Some (origin req)) of
            Inl message \<Rightarrow> (json_response (ErrorMessage message) 500, [])
          | Inr config \<Rightarrow>
             (let storedState = cookie_get (req_cookies req) ''chutes_oauth_state'';
                  codeVerifier = cookie_get (req_cookies req) ''chutes_pkce_verifier''
              in case (or_null (q_code req), or_null (q_state req)) of
                   (Some code, Some state) \<Rightarrow>
                     if \<not> truthy storedState \<or> Some state \<noteq> storedState
                     then (json_response (ErrorMessage ''Invalid state'') 400, [])
                     else
                       (case or_null codeVerifier of
                          None \<Rightarrow> (json_response (ErrorMessage ''Missing PKCE verifier'') 400, [])
                        | Some cv \<Rightarrow>
                           (case exchangeCodeForTokens p code cv config of
                              (calls, Inl message) \<Rightarrow>
                                (json_response (ErrorMessage message) 500, calls)
                            | (calls, Inr None) \<Rightarrow>
                                (json_response (ErrorMessage null_token_result) 500, calls)
                            | (calls, Inr (Some tokenResult)) \<Rightarrow>
                                (let (res, calls') = materialize p stringify req config tokenResult
                                 in (res, calls @ calls'))))
                 | _ \<Rightarrow> (json_response (ErrorMessage ''Missing code or state'') 400, []))))"

text \<open>The two directives that end a successful callback (\<^verbatim>\<open>// Clear temporary OAuth cookies\<close>).\<close>

definition clear_flow :: "set_cookie list" where
  "clear_flow = [cookies_set ''chutes_oauth_state'' [] 0, cookies_set ''chutes_pkce_verifier'' [] 0]"

section \<open>Session route\<close>

text \<open>
  \<open>parse\<close> is \<^verbatim>\<open>JSON.parse\<close> on the cached profile: \<open>None\<close> when it throws or gives
  \<^verbatim>\<open>null\<close>; in both cases the handler's \<^verbatim>\<open>user\<close> is \<^verbatim>\<open>null\<close> afterwards.
\<close>

definition session_GET ::
  "environment \<Rightarrow> idp \<Rightarrow> (string \<Rightarrow> UserInfo option) \<Rightarrow> cookie_jar \<Rightarrow> response \<times> net_call list" where
  "session_GET env p parse jar =
     (let accessToken = or_null (cookie_get jar ''chutes_access_token'');
          storedUser = or_null (cookie_get jar ''chutes_userinfo'')
      in case accessToken of
           None \<Rightarrow> (json_response SignedOut 200, [])
         | Some tok \<Rightarrow>
            (let user = (case storedUser of None \<Rightarrow> None | Some s \<Rightarrow> parse s)
             in case user of
                  Some u \<Rightarrow> (json_response (SignedIn (Some u)) 200, [])
                | None \<Rightarrow>
                   (case getOAuthConfig env None of
                      Inl _ \<Rightarrow> (json_response (SignedIn None) 200, [])
                    | Inr config \<Rightarrow>
                       (case fetchUserInfo p config tok of
                          (calls, Inl _) \<Rightarrow> (json_response (SignedIn None) 200, calls)
                        | (calls, Inr u) \<Rightarrow> (json_response (SignedIn u) 200, calls)))))"

section \<open>Token refresh\<close>

text \<open>
  Modelled from the spec: \<^verbatim>\<open>refreshTokens\<close> of \<^verbatim>\<open>packages/nextjs/lib/chutesAuth.ts\<close>,
  which is not among the sources (the documentation calls it, and \<^verbatim>\<open>ARCHITECTURE.md\<close>
  shows the request). It POSTs \<^verbatim>\<open>grant_type=refresh_token\<close> with the refresh token and
  the client credentials to the token endpoint, and treats the answer as the code
  exchange does.
\<close>

definition refreshTokens ::
  "idp \<Rightarrow> string \<Rightarrow> OAuthConfig \<Rightarrow> net_call list \<times> (string + token_json option)" where
  "refreshTokens p refreshToken config =
     (let tokenUrl = idpBaseUrl config @ ''/idp/token'';
          form = [(''grant_type'', ''refresh_token''), (''refresh_token'', refreshToken),
                  (''client_id'', clientId config), (''client_secret'', clientSecret config)]
      in ([TokenPost tokenUrl form],
          (case token_endpoint p tokenUrl form of
             NetworkError msg \<Rightarrow> Inl msg
           | HttpResponse ok b \<Rightarrow>
              (case b of
                 Unparsable msg \<Rightarrow> Inl msg
               | Json json \<Rightarrow> if \<not> ok then Inl (exchange_error json) else Inr json))))"

text \<open>
  Modelled from the spec: the caller that refreshes a session, which no source file
  contains. It reads the stored refresh token, calls \<^verbatim>\<open>refreshTokens\<close>, and on an answer
  with an access token stores the new access token; it stores a refresh token only when
  the answer carries one, so that the old one is retained otherwise. Without a stored
  refresh token, on a failed call and on an answer without access token it changes
  nothing.
\<close>

definition refresh_session ::
  "idp \<Rightarrow> OAuthConfig \<Rightarrow> cookie_jar \<Rightarrow> (string + set_cookie list) \<times> net_call list" where
  "refresh_session p config jar =
     (case or_null (cookie_get jar ''chutes_refresh_token'') of
        None \<Rightarrow> (Inl ''No refresh token'', [])
      | Some rt \<Rightarrow>
         (case refreshTokens p rt config of
            (calls, Inl message) \<Rightarrow> (Inl message, calls)
          | (calls, Inr None) \<Rightarrow> (Inl ''No access token returned'', calls)
          | (calls, Inr (Some t)) \<Rightarrow>
             (case or_null (access_token t) of
                None \<Rightarrow> (Inl ''No access token returned'', calls)
              | Some tok \<Rightarrow>
                 (let expiresIn = (case expires_in t of None \<Rightarrow> 3600 | Some n \<Rightarrow> n);
                      cs = [cookies_set ''chutes_access_token'' tok expiresIn];
                      cs = (case or_null (refresh_token t) of
                              Some r \<Rightarrow> cs @ [cookies_set ''chutes_refresh_token'' r (60 * 60 * 24 * 30)]
                            | None \<Rightarrow> cs)
                  in (Inr cs, calls)))))"

section \<open>Logout route\<close>

definition logout_POST :: "response" where
  "logout_POST =
     (let res = json_response Ok 200;
          res = set_on res (cookies_set ''chutes_access_token'' [] 0);
          res = set_on res (cookies_set ''chutes_refresh_token'' [] 0);
          res = set_on res (cookies_set ''chutes_userinfo'' [] 0);
          res = set_on res (cookies_set ''chutes_oauth_state'' [] 0);
          res = set_on res (cookies_set ''chutes_pkce_verifier'' [] 0)
      in res)"

text \<open>The store after the browser has processed a response.\<close>

definition after :: "response \<Rightarrow> cookie_jar \<Rightarrow> cookie_jar" where
  "after res jar = apply_cookies (cookies res) jar"

section \<open>Example inputs\<close>

text \<open>A configured application, an identity provider whose two endpoints give fixed
  answers, and a callback request that carries the state and verifier of its own login
  attempt.\<close>

definition example_env :: environment where
  "example_env = \<lparr>CHUTES_IDP_BASE_URL = None, CHUTES_OAUTH_REDIRECT_URI = None,
     NEXT_PUBLIC_APP_URL = None, CHUTES_OAUTH_CLIENT_ID = Some ''cid'',
     CHUTES_OAUTH_CLIENT_SECRET = Some ''secret'', CHUTES_OAUTH_SCOPES = None\<rparr>"

definition fake_idp :: "token_json option fetch_result \<Rightarrow> UserInfo option fetch_result \<Rightarrow> idp" where
  "fake_idp t u = \<lparr>token_endpoint = (\<lambda>url form. t), userinfo_endpoint = (\<lambda>url auth. u)\<rparr>"

definition token_reply :: "string option \<Rightarrow> string option \<Rightarrow> int option \<Rightarrow> token_json" where
  "token_reply a r e = \<lparr>access_token = a, refresh_token = r, expires_in = e, token_type = None,
     error = None, error_description = None\<rparr>"

definition error_reply :: "string option \<Rightarrow> string option \<Rightarrow> token_json" where
  "error_reply e d = \<lparr>access_token = None, refresh_token = None, expires_in = None,
     token_type = None, error = e, error_description = d\<rparr>"

definition example_user :: UserInfo where
  "example_user = \<lparr>sub = ''user-1'', username = Some ''ada'', email = None, name = None,
     created_at = None, extension = []\<rparr>"

definition example_request :: request where
  "example_request = \<lparr>q_code = Some ''c0de'', q_state = Some ''abc'', q_error = None,
     q_error_description = None, origin = ''https://app.example.com'',
     req_cookies = [''chutes_oauth_state'' \<mapsto> ''abc'', ''chutes_pkce_verifier'' \<mapsto> ''v3rifier'',
       ''chutes_access_token'' \<mapsto> ''old'']\<rparr>"

section \<open>Properties\<close>

subsection \<open>Helper facts\<close>

lemma or_null_Some: "or_null v = Some s \<longleftrightarrow> v = Some s \<and> s \<noteq> []"
  by (auto simp: or_null_def truthy_def split: option.splits)

lemma or_null_None: "or_null v = None \<longleftrightarrow> \<not> truthy v"
  by (auto simp: or_null_def truthy_def split: option.splits)

lemma json_response_sel [simp]:
  "status (json_response b s) = s" "body (json_response b s) = b" "cookies (json_response b s) = []"
  by (simp_all add: json_response_def)

lemma materialize_reject:
  "or_null (access_token t) = None \<Longrightarrow>
   materialize p str req config t = (json_response (ErrorMessage ''No access token returned'') 500, [])"
  by (simp add: materialize_def Let_def)

lemma materialize_success:
  "or_null (access_token t) = Some tok \<Longrightarrow>
   status (fst (materialize p str req config t)) = 307
   \<and> body (fst (materialize p str req config t)) = Redirect (origin req @ ''/'')
   \<and> (\<exists>cs. cookies (fst (materialize p str req config t)) = cs @ clear_flow)"
  by (auto simp: materialize_def Let_def set_on_def redirect_response_def clear_flow_def
      split: option.splits sum.splits prod.splits)

lemma materialize_cases:
  "(status (fst (materialize p str req config t)) \<noteq> 307
      \<and> cookies (fst (materialize p str req config t)) = [])
   \<or> (status (fst (materialize p str req config t)) = 307
      \<and> (\<exists>cs. cookies (fst (materialize p str req config t)) = cs @ clear_flow))"
proof (cases "or_null (access_token t)")
  case None
  then show ?thesis by (simp add: materialize_reject)
next
  case (Some tok)
  from materialize_success [OF this] show ?thesis by blast
qed

lemma callback_cases:
  "(status (fst (callback_GET env p str req)) \<noteq> 307
      \<and> cookies (fst (callback_GET env p str req)) = [])
   \<or> (status (fst (callback_GET env p str req)) = 307
      \<and> (\<exists>cs. cookies (fst (callback_GET env p str req)) = cs @ clear_flow))"
proof -
  have m: "\<And>config t r c. materialize p str req config t = (r, c) \<Longrightarrow>
     (status r \<noteq> 307 \<and> cookies r = []) \<or> (status r = 307 \<and> (\<exists>cs. cookies r = cs @ clear_flow))"
    using materialize_cases [of p str req] by (metis fst_conv)
  show ?thesis
    by (auto simp: callback_GET_def Let_def dest: m split: option.splits sum.splits prod.splits)
qed

lemma after_clear_flow:
  "apply_cookies (cs @ clear_flow) jar
     = (apply_cookies cs jar)(''chutes_oauth_state'' := None, ''chutes_pkce_verifier'' := None)"
  by (simp add: apply_cookies_def clear_flow_def apply_cookie_def cookies_set_def)

lemma rejected_store_unchanged:
  "status (fst (callback_GET env p str req)) \<noteq> 307 \<Longrightarrow>
   after (fst (callback_GET env p str req)) jar = jar"
  using callback_cases [of env p str req] by (auto simp: after_def apply_cookies_def)

lemma strip_no_slash: "s = [] \<or> last s \<noteq> CHR ''/'' \<Longrightarrow> strip_trailing_slash s = s"
  by (auto simp: strip_trailing_slash_def)

lemma strip_slash: "strip_trailing_slash (s @ ''/'') = s"
  by (simp add: strip_trailing_slash_def)


lemma after_logout:
  "after logout_POST jar = jar(''chutes_access_token'' := None, ''chutes_refresh_token'' := None,
     ''chutes_userinfo'' := None, ''chutes_oauth_state'' := None, ''chutes_pkce_verifier'' := None)"
  by (simp add: after_def logout_POST_def Let_def set_on_def json_response_def cookies_set_def
      apply_cookies_def apply_cookie_def)

text \<open>
  C9. Logout deletes the access token, the refresh token, the cached profile, the state
  and the verifier from any store, always answers \<^verbatim>\<open>{ ok: true }\<close> with status 200,
  and a second logout answers the same and leaves the store as the first one left it.
\<close>

theorem logout_clears_all_and_is_idempotent:
  "status logout_POST = 200 \<and> body logout_POST = Ok
   \<and> cookie_get (after logout_POST jar) ''chutes_access_token'' = None
   \<and> cookie_get (after logout_POST jar) ''chutes_refresh_token'' = None
   \<and> cookie_get (after logout_POST jar) ''chutes_userinfo'' = None
   \<and> cookie_get (after logout_POST jar) ''chutes_oauth_state'' = None
   \<and> cookie_get (after logout_POST jar) ''chutes_pkce_verifier'' = None
   \<and> after logout_POST (after logout_POST jar) = after logout_POST jar"
proof -
  have "status logout_POST = 200 \<and> body logout_POST = Ok"
    by (simp add: logout_POST_def Let_def set_on_def json_response_def)
  moreover have "after logout_POST (after logout_POST jar) = after logout_POST jar"
    by (simp add: after_logout)
  ultimately show ?thesis
    by (simp add: after_logout cookie_get_def)
qed

theorem logout_clears_all_and_is_idempotent_witness:
  "cookie_get (after logout_POST [''chutes_access_token'' \<mapsto> ''tok123'', ''theme'' \<mapsto> ''dark''])
     ''chutes_access_token'' = None
   \<and> after logout_POST [''chutes_access_token'' \<mapsto> ''tok123'', ''theme'' \<mapsto> ''dark'']
       = [''theme'' \<mapsto> ''dark'']"
proof -
  have "after logout_POST [''chutes_access_token'' \<mapsto> ''tok123'', ''theme'' \<mapsto> ''dark'']
       = [''theme'' \<mapsto> ''dark'']"
    by (auto simp: after_logout fun_eq_iff)
  then show ?thesis
    using logout_clears_all_and_is_idempotent
      [of "[''chutes_access_token'' \<mapsto> ''tok123'', ''theme'' \<mapsto> ''dark'']"]
    by simp
qed

subsection \<open>PKCE challenge\<close>

lemma length_alphabet: "length base64url_alphabet = 64"
  by (simp add: base64url_alphabet_def)

lemma b64_in_alphabet: "b64 n \<in> set base64url_alphabet"
  unfolding b64_def by (rule nth_mem) (simp add: length_alphabet)

lemma base64url_chars: "set (base64url bs) \<subseteq> set base64url_alphabet"
  by (induction bs rule: base64url.induct) (simp_all add: Let_def b64_in_alphabet)

lemma pad_not_in_alphabet: "CHR ''='' \<notin> set base64url_alphabet"
  by (simp add: base64url_alphabet_def)

lemma length_base64url: "length (base64url bs) = (4 * length bs + 2) div 3"
  by (induction bs rule: base64url.induct) (simp_all add: Let_def)

lemma generatePkce_fields:
  "verifier (generatePkce sha256 r) = base64url r"
  "challenge (generatePkce sha256 r) = base64url (sha256 (bytes_of (base64url r)))"
  by (simp_all add: generatePkce_def Let_def)

lemma distinct_alphabet: "distinct base64url_alphabet"
  by (simp add: base64url_alphabet_def)

lemma b64_eq_iff: "b64 m = b64 n \<longleftrightarrow> m mod 64 = n mod 64"
  unfolding b64_def
  by (rule nth_eq_iff_index_eq [OF distinct_alphabet]) (simp_all add: length_alphabet)

lemma unat_byte: "unat (x :: byte) < 256"
  using unsigned_less [of x, where ?'a = nat] by simp

lemma div_hi: fixes a r :: nat shows "r < k \<Longrightarrow> (a * k + r) div k = a"
  by simp

lemma mod_lo: fixes a r :: nat shows "r < k \<Longrightarrow> (a * k + r) mod k = r"
  by simp

lemma digits4:
  fixes n :: nat
  shows "n = n mod 64 + 64 * (n div 64 mod 64) + 4096 * (n div 4096 mod 64) + 262144 * (n div 262144)"
proof -
  have 1: "n = n mod 64 + 64 * (n div 64)" by simp
  have 2: "n div 64 = n div 64 mod 64 + 64 * (n div 64 div 64)" by simp
  have 3: "n div 64 div 64 = n div 4096" by (simp add: div_mult2_eq)
  have 4: "n div 4096 = n div 4096 mod 64 + 64 * (n div 4096 div 64)" by simp
  have 5: "n div 4096 div 64 = n div 262144" by (simp add: div_mult2_eq)
  from 1 2 3 4 5 show ?thesis by linarith
qed

lemma digits3:
  fixes n :: nat
  shows "n = n mod 64 + 64 * (n div 64 mod 64) + 4096 * (n div 4096)"
proof -
  have 1: "n = n mod 64 + 64 * (n div 64)" by simp
  have 2: "n div 64 = n div 64 mod 64 + 64 * (n div 64 div 64)" by simp
  have 3: "n div 64 div 64 = n div 4096" by (simp add: div_mult2_eq)
  from 1 2 3 show ?thesis by linarith
qed

lemma sextets4:
  fixes n n' :: nat
  assumes "n < 16777216" "n' < 16777216"
    and "n div 262144 mod 64 = n' div 262144 mod 64"
    and "n div 4096 mod 64 = n' div 4096 mod 64"
    and "n div 64 mod 64 = n' div 64 mod 64"
    and "n mod 64 = n' mod 64"
  shows "n = n'"
proof -
  have "n div 262144 < 64" "n' div 262144 < 64" using assms(1,2) by simp_all
  with assms(3) have "n div 262144 = n' div 262144" by simp
  with assms(4,5,6) digits4 [of n] digits4 [of n'] show ?thesis by simp
qed

lemma sextets3:
  fixes n n' :: nat
  assumes "n < 262144" "n' < 262144"
    and "n div 4096 mod 64 = n' div 4096 mod 64"
    and "n div 64 mod 64 = n' div 64 mod 64"
    and "n mod 64 = n' mod 64"
  shows "n = n'"
proof -
  have "n div 4096 < 64" "n' div 4096 < 64" using assms(1,2) by simp_all
  with assms(3) have "n div 4096 = n' div 4096" by simp
  with assms(4,5) digits3 [of n] digits3 [of n'] show ?thesis by simp
qed

lemma sextets2:
  fixes n n' :: nat
  assumes "n < 4096" "n' < 4096"
    and "n div 64 mod 64 = n' div 64 mod 64"
    and "n mod 64 = n' mod 64"
  shows "n = n'"
proof -
  have "n div 64 < 64" "n' div 64 < 64" using assms(1,2) by simp_all
  with assms(3) have "n div 64 = n' div 64" by simp
  with assms(4) show ?thesis by (metis div_mult_mod_eq)
qed

lemma split_high_low:
  fixes b c b' c' :: nat
  assumes "c < k" "c' < k" and e: "b * k + c = b' * k + c'"
  shows "b = b' \<and> c = c'"
proof -
  from e have "(b * k + c) div k = (b' * k + c') div k"
    and "(b * k + c) mod k = (b' * k + c') mod k" by simp_all
  with assms(1,2) show ?thesis by (simp only: div_hi mod_lo)
qed

text \<open>Equal characters come from equal bytes, for a group of three, two and one byte.\<close>

lemma group3:
  assumes "b64 ((unat a * 65536 + unat b * 256 + unat c) div 262144)
             = b64 ((unat a' * 65536 + unat b' * 256 + unat c') div 262144)"
    and "b64 ((unat a * 65536 + unat b * 256 + unat c) div 4096)
             = b64 ((unat a' * 65536 + unat b' * 256 + unat c') div 4096)"
    and "b64 ((unat a * 65536 + unat b * 256 + unat c) div 64)
             = b64 ((unat a' * 65536 + unat b' * 256 + unat c') div 64)"
    and "b64 (unat a * 65536 + unat b * 256 + unat c)
             = b64 (unat a' * 65536 + unat b' * 256 + unat c')"
  shows "(a :: byte) = a' \<and> (b :: byte) = b' \<and> (c :: byte) = c'"
proof -
  let ?n = "unat a * 65536 + unat b * 256 + unat c"
  let ?n' = "unat a' * 65536 + unat b' * 256 + unat c'"
  have lt: "?n < 16777216" "?n' < 16777216"
    using unat_byte [of a] unat_byte [of b] unat_byte [of c]
      unat_byte [of a'] unat_byte [of b'] unat_byte [of c'] by linarith+
  have "?n = ?n'"
    using assms by (intro sextets4 [OF lt]) (simp_all only: b64_eq_iff)
  then have e: "unat a * 65536 + (unat b * 256 + unat c) = unat a' * 65536 + (unat b' * 256 + unat c')"
    by simp
  have r: "unat b * 256 + unat c < 65536" "unat b' * 256 + unat c' < 65536"
    using unat_byte [of b] unat_byte [of c] unat_byte [of b'] unat_byte [of c'] by linarith+
  from split_high_low [OF r e]
  have "unat a = unat a'" and e2: "unat b * 256 + unat c = unat b' * 256 + unat c'"
    by simp_all
  from split_high_low [OF unat_byte unat_byte e2] have "unat b = unat b'" "unat c = unat c'"
    by simp_all
  with \<open>unat a = unat a'\<close> show ?thesis by (simp add: word_unat_eq_iff)
qed

lemma group2:
  assumes "b64 ((unat a * 1024 + unat b * 4) div 4096) = b64 ((unat a' * 1024 + unat b' * 4) div 4096)"
    and "b64 ((unat a * 1024 + unat b * 4) div 64) = b64 ((unat a' * 1024 + unat b' * 4) div 64)"
    and "b64 (unat a * 1024 + unat b * 4) = b64 (unat a' * 1024 + unat b' * 4)"
  shows "(a :: byte) = a' \<and> (b :: byte) = b'"
proof -
  let ?n = "unat a * 1024 + unat b * 4"
  let ?n' = "unat a' * 1024 + unat b' * 4"
  have lt: "?n < 262144" "?n' < 262144"
    using unat_byte [of a] unat_byte [of b] unat_byte [of a'] unat_byte [of b'] by linarith+
  have e: "?n = ?n'"
    using assms by (intro sextets3 [OF lt]) (simp_all only: b64_eq_iff)
  have r: "unat b * 4 < 1024" "unat b' * 4 < 1024"
    using unat_byte [of b] unat_byte [of b'] by linarith+
  from split_high_low [OF r e] have "unat a = unat a'" "unat b = unat b'" by simp_all
  then show ?thesis by (simp add: word_unat_eq_iff)
qed

lemma group1:
  assumes "b64 ((unat a * 16) div 64) = b64 ((unat a' * 16) div 64)"
    and "b64 (unat a * 16) = b64 (unat a' * 16)"
  shows "(a :: byte) = a'"
proof -
  have lt: "unat a * 16 < 4096" "unat a' * 16 < 4096"
    using unat_byte [of a] unat_byte [of a'] by linarith+
  have "unat a * 16 = unat a' * 16"
    using assms by (intro sextets2 [OF lt]) (simp_all only: b64_eq_iff)
  then show ?thesis by (simp add: word_unat_eq_iff)
qed

lemma base64url_inj: "base64url bs = base64url bs' \<Longrightarrow> bs = bs'"
proof (induction bs arbitrary: bs' rule: base64url.induct)
  case (1 a b c bs)
  from 1(2) have "length (base64url bs') = length (base64url (a # b # c # bs))" by simp
  then have "(4 * length bs' + 2) div 3 = (4 * length (a # b # c # bs) + 2) div 3"
    by (simp only: length_base64url)
  then have "3 \<le> length bs'" by simp
  then obtain a' b' c' bs'' where bs': "bs' = a' # b' # c' # bs''"
    by (cases bs'; cases "tl bs'"; cases "tl (tl bs')") auto
  from 1(2) have h: "b64 ((unat a * 65536 + unat b * 256 + unat c) div 262144)
             = b64 ((unat a' * 65536 + unat b' * 256 + unat c') div 262144)"
    "b64 ((unat a * 65536 + unat b * 256 + unat c) div 4096)
             = b64 ((unat a' * 65536 + unat b' * 256 + unat c') div 4096)"
    "b64 ((unat a * 65536 + unat b * 256 + unat c) div 64)
             = b64 ((unat a' * 65536 + unat b' * 256 + unat c') div 64)"
    "b64 (unat a * 65536 + unat b * 256 + unat c)
             = b64 (unat a' * 65536 + unat b' * 256 + unat c')"
    and t: "base64url bs = base64url bs''"
    unfolding bs' by (simp_all add: Let_def)
  from group3 [OF h] 1(1) [OF refl t] show ?case by (simp add: bs')
next
  case (2 a b)
  from 2 have "length (base64url bs') = length (base64url [a, b])" by simp
  then have "(4 * length bs' + 2) div 3 = (4 * length [a, b] + 2) div 3"
    by (simp only: length_base64url)
  then have "length bs' = 2" by simp
  then obtain a' b' where bs': "bs' = [a', b']"
    by (cases bs'; cases "tl bs'") auto
  from 2 have "b64 ((unat a * 1024 + unat b * 4) div 4096) = b64 ((unat a' * 1024 + unat b' * 4) div 4096)"
    "b64 ((unat a * 1024 + unat b * 4) div 64) = b64 ((unat a' * 1024 + unat b' * 4) div 64)"
    "b64 (unat a * 1024 + unat b * 4) = b64 (unat a' * 1024 + unat b' * 4)"
    unfolding bs' by (simp_all add: Let_def)
  from group2 [OF this] show ?case by (simp add: bs')
next
  case (3 a)
  from 3 have "length (base64url bs') = length (base64url [a])" by simp
  then have "(4 * length bs' + 2) div 3 = (4 * length [a] + 2) div 3"
    by (simp only: length_base64url)
  then have "length bs' = 1" by simp
  then obtain a' where bs': "bs' = [a']" by (cases bs') auto
  from 3 have "b64 ((unat a * 16) div 64) = b64 ((unat a' * 16) div 64)"
    "b64 (unat a * 16) = b64 (unat a' * 16)"
    unfolding bs' by (simp_all add: Let_def)
  from group1 [OF this] show ?case by (simp add: bs')
next
  case 4
  from 4 have "length (base64url bs') = 0" by simp
  then have "(4 * length bs' + 2) div 3 = 0" by (simp only: length_base64url)
  then have "length bs' = 0" by arith
  then show ?case by simp
qed

lemma char_codes: "map unat (map (\<lambda>c. of_nat (of_char c) :: byte) v) = map of_char v"
  by (simp add: unat_of_nat)

text \<open>
  C6. Whatever random bytes \<^verbatim>\<open>generatePkce\<close> draws, its challenge is the base64url
  encoding of the SHA-256 digest of its verifier, the digest being taken of the
  verifier's characters, one byte per character with the character's code. The encoding
  uses only the 64 URL-safe characters, so it has no \<^verbatim>\<open>=\<close> padding (43 characters for a
  32-byte digest, where a padded encoding has 44), and it is one-to-one: the challenge
  is the encoding of that digest and of no other byte string. Two runs with the same
  verifier have the same challenge.
\<close>

theorem pkce_challenge_of_verifier:
  "challenge (generatePkce sha256 r)
     = base64url (sha256 (map (\<lambda>c. of_nat (of_char c)) (verifier (generatePkce sha256 r))))
   \<and> map unat (map (\<lambda>c. of_nat (of_char c) :: byte) (verifier (generatePkce sha256 r)))
       = map of_char (verifier (generatePkce sha256 r))
   \<and> CHR ''='' \<notin> set (challenge (generatePkce sha256 r))
   \<and> set (challenge (generatePkce sha256 r)) \<subseteq> set base64url_alphabet
   \<and> (length (sha256 (map (\<lambda>c. of_nat (of_char c)) (verifier (generatePkce sha256 r)))) = 32
        \<longrightarrow> length (challenge (generatePkce sha256 r)) = 43)
   \<and> (challenge (generatePkce sha256 r) = base64url d
        \<longrightarrow> d = sha256 (map (\<lambda>c. of_nat (of_char c)) (verifier (generatePkce sha256 r))))
   \<and> (verifier (generatePkce sha256 r) = verifier (generatePkce sha256 r')
        \<longrightarrow> challenge (generatePkce sha256 r) = challenge (generatePkce sha256 r'))"
proof -
  have chars: "set (challenge (generatePkce sha256 r)) \<subseteq> set base64url_alphabet"
    by (simp add: generatePkce_fields base64url_chars)
  then have nopad: "CHR ''='' \<notin> set (challenge (generatePkce sha256 r))"
    using pad_not_in_alphabet by blast
  have one: "challenge (generatePkce sha256 r) = base64url d
        \<longrightarrow> d = sha256 (map (\<lambda>c. of_nat (of_char c)) (verifier (generatePkce sha256 r)))"
    by (auto simp: generatePkce_fields bytes_of_def dest: base64url_inj)
  have enc: "challenge (generatePkce sha256 r)
     = base64url (sha256 (map (\<lambda>c. of_nat (of_char c)) (verifier (generatePkce sha256 r))))"
    by (simp add: generatePkce_fields bytes_of_def)
  have codes: "map unat (map (\<lambda>c. of_nat (of_char c) :: byte) (verifier (generatePkce sha256 r)))
       = map of_char (verifier (generatePkce sha256 r))"
    by (rule char_codes)
  have len: "length (sha256 (map (\<lambda>c. of_nat (of_char c)) (verifier (generatePkce sha256 r)))) = 32
        \<longrightarrow> length (challenge (generatePkce sha256 r)) = 43"
    by (simp add: generatePkce_fields length_base64url bytes_of_def)
  have det: "verifier (generatePkce sha256 r) = verifier (generatePkce sha256 r')
        \<longrightarrow> challenge (generatePkce sha256 r) = challenge (generatePkce sha256 r')"
    by (simp add: generatePkce_fields)
  show ?thesis
    using enc codes nopad chars len one det by (intro conjI)
qed

text \<open>The example of RFC 7636, appendix B: its 32 octets, the verifier they encode to,
  the character codes of that verifier and their SHA-256 digest.\<close>

theorem pkce_challenge_of_verifier_witness:
  "generatePkce
     (\<lambda>m. if m = [100, 66, 106, 102, 116, 74, 101, 90, 52, 67, 86, 80, 45, 109, 66, 57, 50, 75,
                   50, 55, 117, 104, 98, 85, 74, 85, 49, 112, 49, 114, 95, 119, 87, 49, 103, 70,
                   87, 70, 79, 69, 106, 88, 107]
          then [19, 211, 30, 150, 26, 26, 216, 236, 47, 22, 177, 12, 76, 152, 46, 8,
                118, 168, 120, 173, 109, 241, 68, 86, 110, 225, 137, 74, 203, 112, 249, 195]
          else [])
     [116, 24, 223, 180, 151, 153, 224, 37, 79, 250, 96, 125, 216, 173, 187, 186,
      22, 212, 37, 77, 105, 214, 191, 240, 91, 88, 5, 88, 83, 132, 141, 121]
   = \<lparr>verifier = ''dBjftJeZ4CVP-mB92K27uhbUJU1p1r_wW1gFWFOEjXk'',
      challenge = ''E9Melhoa2OwvFrEMTJguCHaoeK1t8URWbuGJSstw-cM''\<rparr>
   \<and> CHR ''='' \<notin> set ''E9Melhoa2OwvFrEMTJguCHaoeK1t8URWbuGJSstw-cM''
   \<and> length ''E9Melhoa2OwvFrEMTJguCHaoeK1t8URWbuGJSstw-cM'' = 43"
proof -
  let ?key = "[100, 66, 106, 102, 116, 74, 101, 90, 52, 67, 86, 80, 45, 109, 66, 57, 50, 75,
                   50, 55, 117, 104, 98, 85, 74, 85, 49, 112, 49, 114, 95, 119, 87, 49, 103, 70,
                   87, 70, 79, 69, 106, 88, 107] :: byte list"
  let ?digest = "[19, 211, 30, 150, 26, 26, 216, 236, 47, 22, 177, 12, 76, 152, 46, 8,
                118, 168, 120, 173, 109, 241, 68, 86, 110, 225, 137, 74, 203, 112, 249, 195] :: byte list"
  let ?sha = "\<lambda>m. if m = ?key then ?digest else ([] :: byte list)"
  let ?r = "[116, 24, 223, 180, 151, 153, 224, 37, 79, 250, 96, 125, 216, 173, 187, 186,
      22, 212, 37, 77, 105, 214, 191, 240, 91, 88, 5, 88, 83, 132, 141, 121] :: byte list"
  let ?v = "''dBjftJeZ4CVP-mB92K27uhbUJU1p1r_wW1gFWFOEjXk''"
  let ?c = "''E9Melhoa2OwvFrEMTJguCHaoeK1t8URWbuGJSstw-cM''"
  note t = pkce_challenge_of_verifier [of ?sha ?r _ ?r]
  have v: "verifier (generatePkce ?sha ?r) = ?v"
    unfolding generatePkce_fields by (simp add: b64_def base64url_alphabet_def)
  have k: "map (\<lambda>c. of_nat (of_char c)) ?v = ?key"
    by simp
  have e: "base64url ?digest = ?c"
    by (simp add: b64_def base64url_alphabet_def)
  have "challenge (generatePkce ?sha ?r)
      = base64url (?sha (map (\<lambda>c. of_nat (of_char c)) (verifier (generatePkce ?sha ?r))))"
    by (rule t [THEN conjunct1])
  also have "\<dots> = base64url ?digest"
    unfolding v k by (simp only: if_True simp_thms)
  finally have c: "challenge (generatePkce ?sha ?r) = ?c"
    using e by simp
  have len: "length (?sha (map (\<lambda>c. of_nat (of_char c)) (verifier (generatePkce ?sha ?r)))) = 32"
    unfolding v k by simp
  have "CHR ''='' \<notin> set (challenge (generatePkce ?sha ?r))"
    by (rule t [THEN conjunct2, THEN conjunct2, THEN conjunct1])
  then have np: "CHR ''='' \<notin> set ?c"
    unfolding c .
  have "length (challenge (generatePkce ?sha ?r)) = 43"
    by (rule t [THEN conjunct2, THEN conjunct2, THEN conjunct2, THEN conjunct2, THEN conjunct1,
          THEN mp, OF len])
  then have l: "length ?c = 43"
    unfolding c .
  have g: "generatePkce ?sha ?r = \<lparr>verifier = ?v, challenge = ?c\<rparr>"
    using v c by (cases "generatePkce ?sha ?r") simp
  show ?thesis
    using g np l by (intro conjI)
qed

lemmas fixture_defs = example_env_def fake_idp_def token_reply_def error_reply_def
  example_user_def example_request_def

lemmas eval_defs = callback_GET_def materialize_def exchangeCodeForTokens_def fetchUserInfo_def
  getOAuthConfig_def buildRedirectUri_def IDP_BASE_URL_def or_null_def or_else_def truthy_def
  strip_trailing_slash_def callback_suffix_def cookie_get_def json_response_def
  redirect_response_def set_on_def cookies_set_def exchange_error_def Let_def

text \<open>The example request with a state other than the stored one, and as it is.\<close>

lemma example_invalid_state:
  "callback_GET example_env (fake_idp t u) str (example_request\<lparr>q_state := Some ''xyz''\<rparr>)
     = (json_response (ErrorMessage ''Invalid state'') 400, [])"
  by (simp add: eval_defs fixture_defs)

lemma example_success:
  "callback_GET example_env
     (fake_idp (HttpResponse True (Json (Some (token_reply (Some ''tok123'') None (Some 120)))))
        (HttpResponse True (Json (Some example_user)))) sub example_request
   = (\<lparr>status = 307, body = Redirect ''https://app.example.com/'',
       cookies = [cookies_set ''chutes_access_token'' ''tok123'' 120,
                  cookies_set ''chutes_userinfo'' ''user-1'' 120,
                  cookies_set ''chutes_oauth_state'' [] 0,
                  cookies_set ''chutes_pkce_verifier'' [] 0]\<rparr>,
      [TokenPost ''https://api.chutes.ai/idp/token''
         [(''grant_type'', ''authorization_code''), (''code'', ''c0de''),
          (''redirect_uri'', ''https://app.example.com/api/auth/chutes/callback''),
          (''client_id'', ''cid''), (''client_secret'', ''secret''), (''code_verifier'', ''v3rifier'')],
       UserinfoGet ''https://api.chutes.ai/idp/userinfo'' ''Bearer tok123''])"
  by (simp add: eval_defs fixture_defs)

subsection \<open>Redirect URI\<close>

text \<open>
  C7, as the code has it. The redirect URI is the first of: the override variable
  \<^verbatim>\<open>CHUTES_OAUTH_REDIRECT_URI\<close> when it is set to a non-empty value; the public base URL
  \<^verbatim>\<open>NEXT_PUBLIC_APP_URL\<close>, when non-empty, with one trailing slash removed if it has one,
  followed by \<^verbatim>\<open>/api/auth/chutes/callback\<close>; the request origin, when given and
  non-empty, treated the same way; the fallback \<^verbatim>\<open>http://localhost:3000/api/auth/chutes/callback\<close>.
  A value without trailing slash is used as it is. The result depends on the two
  variables and the origin only.
\<close>

theorem redirect_uri_resolution:
  "(CHUTES_OAUTH_REDIRECT_URI env = Some r \<and> r \<noteq> [] \<longrightarrow> buildRedirectUri env requestOrigin = r)
   \<and> (\<not> truthy (CHUTES_OAUTH_REDIRECT_URI env) \<and> NEXT_PUBLIC_APP_URL env = Some b \<and> b \<noteq> []
        \<longrightarrow> buildRedirectUri env requestOrigin = strip_trailing_slash b @ ''/api/auth/chutes/callback'')
   \<and> (\<not> truthy (CHUTES_OAUTH_REDIRECT_URI env) \<and> \<not> truthy (NEXT_PUBLIC_APP_URL env)
        \<and> requestOrigin = Some g \<and> g \<noteq> []
        \<longrightarrow> buildRedirectUri env requestOrigin = strip_trailing_slash g @ ''/api/auth/chutes/callback'')
   \<and> (\<not> truthy (CHUTES_OAUTH_REDIRECT_URI env) \<and> \<not> truthy (NEXT_PUBLIC_APP_URL env)
        \<and> \<not> truthy requestOrigin
        \<longrightarrow> buildRedirectUri env requestOrigin = ''http://localhost:3000/api/auth/chutes/callback'')
   \<and> (s = [] \<or> last s \<noteq> CHR ''/'' \<longrightarrow> strip_trailing_slash s = s)
   \<and> strip_trailing_slash (s @ ''/'') = s
   \<and> (CHUTES_OAUTH_REDIRECT_URI env = CHUTES_OAUTH_REDIRECT_URI env'
        \<and> NEXT_PUBLIC_APP_URL env = NEXT_PUBLIC_APP_URL env'
        \<longrightarrow> buildRedirectUri env requestOrigin = buildRedirectUri env' requestOrigin)"
  by (auto simp: buildRedirectUri_def Let_def or_null_def truthy_def callback_suffix_def
      strip_no_slash strip_slash split: option.splits)

text \<open>One input for each of the four cases.\<close>

theorem redirect_uri_resolution_witness:
  "buildRedirectUri (example_env\<lparr>CHUTES_OAUTH_REDIRECT_URI := Some ''https://a.example/cb'',
       NEXT_PUBLIC_APP_URL := Some ''https://b.example''\<rparr>) (Some ''https://c.example'')
     = ''https://a.example/cb''
   \<and> buildRedirectUri (example_env\<lparr>NEXT_PUBLIC_APP_URL := Some ''https://b.example/''\<rparr>)
       (Some ''https://c.example'')
     = ''https://b.example/api/auth/chutes/callback''
   \<and> buildRedirectUri example_env (Some ''https://c.example'')
     = ''https://c.example/api/auth/chutes/callback''
   \<and> buildRedirectUri example_env None = ''http://localhost:3000/api/auth/chutes/callback''"
proof -
  note t = redirect_uri_resolution
  have 1: "buildRedirectUri (example_env\<lparr>CHUTES_OAUTH_REDIRECT_URI := Some ''https://a.example/cb'',
       NEXT_PUBLIC_APP_URL := Some ''https://b.example''\<rparr>) (Some ''https://c.example'')
     = ''https://a.example/cb''"
    by (rule t [THEN conjunct1, THEN mp]) simp
  have "buildRedirectUri (example_env\<lparr>NEXT_PUBLIC_APP_URL := Some ''https://b.example/''\<rparr>)
       (Some ''https://c.example'')
     = strip_trailing_slash ''https://b.example/'' @ ''/api/auth/chutes/callback''"
    by (rule t [THEN conjunct2, THEN conjunct1, THEN mp]) (simp add: example_env_def truthy_def)
  then have 2: "buildRedirectUri (example_env\<lparr>NEXT_PUBLIC_APP_URL := Some ''https://b.example/''\<rparr>)
       (Some ''https://c.example'') = ''https://b.example/api/auth/chutes/callback''"
    by (simp add: strip_trailing_slash_def)
  have "buildRedirectUri example_env (Some ''https://c.example'')
     = strip_trailing_slash ''https://c.example'' @ ''/api/auth/chutes/callback''"
    by (rule t [THEN conjunct2, THEN conjunct2, THEN conjunct1, THEN mp])
       (simp add: example_env_def truthy_def)
  then have 3: "buildRedirectUri example_env (Some ''https://c.example'')
     = ''https://c.example/api/auth/chutes/callback''"
    by (simp add: strip_trailing_slash_def)
  have 4: "buildRedirectUri example_env None = ''http://localhost:3000/api/auth/chutes/callback''"
    by (rule t [THEN conjunct2, THEN conjunct2, THEN conjunct2, THEN conjunct1, THEN mp])
       (simp add: example_env_def truthy_def)
  from 1 2 3 4 show ?thesis by (intro conjI)
qed

text \<open>
  The statement of the spec, base URL plus suffix, fails for a base URL that ends in a slash:
  the code drops that slash first.
\<close>

theorem redirect_uri_counterexample:
  "buildRedirectUri (example_env\<lparr>NEXT_PUBLIC_APP_URL := Some ''https://app.example.com/''\<rparr>) None
     = ''https://app.example.com/api/auth/chutes/callback''
   \<and> buildRedirectUri (example_env\<lparr>NEXT_PUBLIC_APP_URL := Some ''https://app.example.com/''\<rparr>) None
     \<noteq> ''https://app.example.com/'' @ ''/api/auth/chutes/callback''"
  by (simp add: buildRedirectUri_def example_env_def Let_def or_null_def truthy_def
      callback_suffix_def strip_trailing_slash_def)

subsection \<open>Callback: error reported by the identity provider\<close>

text \<open>
  C3. When the request carries an \<^verbatim>\<open>error\<close> parameter (with a non-empty value, which is
  what \<^verbatim>\<open>if (error)\<close> tests), the callback answers status 400 with that error and the
  \<^verbatim>\<open>error_description\<close> as received, and makes no network call. The answer is the same
  whatever the configuration, the provider, the code, the state and the stored cookies
  are: neither the state nor the verifier is looked at.
\<close>

theorem idp_error_short_circuits:
  "q_error req = Some e \<and> e \<noteq> [] \<longrightarrow>
     callback_GET env p str req = (json_response (IdpError e (q_error_description req)) 400, [])
     \<and> callback_GET env' p' str' (req\<lparr>q_code := c', q_state := s', req_cookies := jar'\<rparr>)
         = callback_GET env p str req"
  by (simp add: callback_GET_def or_null_def truthy_def)

theorem idp_error_short_circuits_witness:
  "callback_GET example_env (fake_idp (NetworkError ''unreachable'') (NetworkError ''unreachable'')) sub
     (example_request\<lparr>q_code := None, q_error := Some ''access_denied'',
        q_error_description := Some ''The user denied the request''\<rparr>)
   = (json_response (IdpError ''access_denied'' (Some ''The user denied the request'')) 400, [])"
proof -
  let ?req = "example_request\<lparr>q_code := None, q_error := Some ''access_denied'',
        q_error_description := Some ''The user denied the request''\<rparr>"
  have h: "q_error ?req = Some ''access_denied'' \<and> ''access_denied'' \<noteq> []" by simp
  have d: "q_error_description ?req = Some ''The user denied the request''" by simp
  show ?thesis
    using idp_error_short_circuits [THEN mp, OF h, THEN conjunct1] unfolding d .
qed

subsection \<open>Callback: a rejection leaves the session alone\<close>

text \<open>
  C10. Every answer of the callback other than the redirect of a successful sign-in
  (the answers for an error parameter, a missing code or state, an invalid state, a
  missing verifier, a failed token exchange and a missing access token) sets no cookie:
  the store is unchanged, and with it the access token, the refresh token and the cached
  profile.
\<close>

theorem rejected_callback_keeps_session:
  "status (fst (callback_GET env p str req)) \<noteq> 307 \<longrightarrow>
     cookies (fst (callback_GET env p str req)) = []
     \<and> after (fst (callback_GET env p str req)) jar = jar
     \<and> cookie_get (after (fst (callback_GET env p str req)) jar) ''chutes_access_token''
         = cookie_get jar ''chutes_access_token''
     \<and> cookie_get (after (fst (callback_GET env p str req)) jar) ''chutes_refresh_token''
         = cookie_get jar ''chutes_refresh_token''
     \<and> cookie_get (after (fst (callback_GET env p str req)) jar) ''chutes_userinfo''
         = cookie_get jar ''chutes_userinfo''"
  using callback_cases [of env p str req] by (auto simp: rejected_store_unchanged)

theorem rejected_callback_keeps_session_witness:
  "status (fst (callback_GET example_env (fake_idp (NetworkError ''down'') (NetworkError ''down'')) sub
      (example_request\<lparr>q_state := Some ''xyz''\<rparr>))) = 400
   \<and> cookie_get (after (fst (callback_GET example_env
         (fake_idp (NetworkError ''down'') (NetworkError ''down'')) sub
         (example_request\<lparr>q_state := Some ''xyz''\<rparr>))) (req_cookies example_request))
       ''chutes_access_token'' = Some ''old''"
proof -
  let ?r = "fst (callback_GET example_env (fake_idp (NetworkError ''down'') (NetworkError ''down'')) sub
      (example_request\<lparr>q_state := Some ''xyz''\<rparr>))"
  have s: "status ?r = 400" by (simp add: example_invalid_state)
  then have h: "status ?r \<noteq> 307" by simp
  have "cookie_get (after ?r (req_cookies example_request)) ''chutes_access_token''
         = cookie_get (req_cookies example_request) ''chutes_access_token''"
    by (rule rejected_callback_keeps_session [THEN mp, OF h, THEN conjunct2, THEN conjunct2,
          THEN conjunct1])
  also have "\<dots> = Some ''old''" by (simp add: example_request_def cookie_get_def)
  finally show ?thesis using s by simp
qed

subsection \<open>Callback: state and verifier after the callback\<close>

text \<open>
  C1, as the code has it. When the callback succeeds (it answers with the redirect), the
  stored state and the stored verifier are deleted, and a later lookup of either finds
  nothing. When the callback rejects, on any path, it deletes neither: both are left as
  they were stored.
\<close>

theorem flow_cookies_cleared_on_success_only:
  "(status (fst (callback_GET env p str req)) = 307 \<longrightarrow>
      cookie_get (after (fst (callback_GET env p str req)) jar) ''chutes_oauth_state'' = None
      \<and> cookie_get (after (fst (callback_GET env p str req)) jar) ''chutes_pkce_verifier'' = None)
   \<and> (status (fst (callback_GET env p str req)) \<noteq> 307 \<longrightarrow>
      cookie_get (after (fst (callback_GET env p str req)) jar) ''chutes_oauth_state''
        = cookie_get jar ''chutes_oauth_state''
      \<and> cookie_get (after (fst (callback_GET env p str req)) jar) ''chutes_pkce_verifier''
        = cookie_get jar ''chutes_pkce_verifier'')"
proof -
  let ?r = "fst (callback_GET env p str req)"
  have "status ?r = 307 \<longrightarrow> after ?r jar ''chutes_oauth_state'' = None
          \<and> after ?r jar ''chutes_pkce_verifier'' = None"
    using callback_cases [of env p str req] by (auto simp: after_def after_clear_flow)
  moreover have "status ?r \<noteq> 307 \<longrightarrow> after ?r jar = jar"
    by (simp add: rejected_store_unchanged)
  ultimately show ?thesis by (auto simp: cookie_get_def)
qed

theorem flow_cookies_cleared_on_success_only_witness:
  "cookie_get (after (fst (callback_GET example_env
       (fake_idp (HttpResponse True (Json (Some (token_reply (Some ''tok123'') None (Some 120)))))
          (HttpResponse True (Json (Some example_user)))) sub example_request))
       (req_cookies example_request)) ''chutes_oauth_state'' = None
   \<and> cookie_get (after (fst (callback_GET example_env
       (fake_idp (HttpResponse True (Json (Some (token_reply (Some ''tok123'') None (Some 120)))))
          (HttpResponse True (Json (Some example_user)))) sub example_request))
       (req_cookies example_request)) ''chutes_pkce_verifier'' = None
   \<and> cookie_get (after (fst (callback_GET example_env
       (fake_idp (NetworkError ''down'') (NetworkError ''down'')) sub
       (example_request\<lparr>q_state := Some ''xyz''\<rparr>)))
       (req_cookies example_request)) ''chutes_oauth_state'' = Some ''abc''"
proof -
  let ?ok = "fst (callback_GET example_env
       (fake_idp (HttpResponse True (Json (Some (token_reply (Some ''tok123'') None (Some 120)))))
          (HttpResponse True (Json (Some example_user)))) sub example_request)"
  let ?bad = "fst (callback_GET example_env
       (fake_idp (NetworkError ''down'') (NetworkError ''down'')) sub
       (example_request\<lparr>q_state := Some ''xyz''\<rparr>))"
  have h1: "status ?ok = 307" by (simp add: example_success)
  have h2: "status ?bad \<noteq> 307" by (simp add: example_invalid_state)
  note a = flow_cookies_cleared_on_success_only [THEN conjunct1, THEN mp, OF h1]
  note b = flow_cookies_cleared_on_success_only [THEN conjunct2, THEN mp, OF h2, THEN conjunct1,
      of "req_cookies example_request"]
  have c: "cookie_get (req_cookies example_request) ''chutes_oauth_state'' = Some ''abc''"
    by (simp add: example_request_def cookie_get_def)
  show ?thesis using a [of "req_cookies example_request"] b c by simp
qed

text \<open>
  The statement of the spec fails on the rejection paths: a callback whose state differs from
  the stored one is rejected with \<^verbatim>\<open>Invalid state\<close>, and the stored state and verifier
  can still be read afterwards.
\<close>

theorem flow_cookies_survive_rejection_counterexample:
  "fst (callback_GET example_env (fake_idp (NetworkError ''down'') (NetworkError ''down'')) sub
      (example_request\<lparr>q_state := Some ''xyz''\<rparr>))
     = json_response (ErrorMessage ''Invalid state'') 400
   \<and> cookie_get (after (fst (callback_GET example_env
         (fake_idp (NetworkError ''down'') (NetworkError ''down'')) sub
         (example_request\<lparr>q_state := Some ''xyz''\<rparr>))) (req_cookies example_request))
       ''chutes_oauth_state'' = Some ''abc''
   \<and> cookie_get (after (fst (callback_GET example_env
         (fake_idp (NetworkError ''down'') (NetworkError ''down'')) sub
         (example_request\<lparr>q_state := Some ''xyz''\<rparr>))) (req_cookies example_request))
       ''chutes_pkce_verifier'' = Some ''v3rifier''"
proof -
  have "cookie_get (after (json_response (ErrorMessage ''Invalid state'') 400)
          (req_cookies example_request)) ''chutes_oauth_state'' = Some ''abc''
      \<and> cookie_get (after (json_response (ErrorMessage ''Invalid state'') 400)
          (req_cookies example_request)) ''chutes_pkce_verifier'' = Some ''v3rifier''"
    by (simp add: after_def apply_cookies_def example_request_def cookie_get_def)
  then show ?thesis by (simp add: example_invalid_state)
qed

subsection \<open>Callback: the paths of the handler\<close>

text \<open>One fact for each return of the handler, in the order of the source.\<close>

lemma callback_idp_error:
  "truthy (q_error req) \<Longrightarrow>
   \<exists>e. q_error req = Some e \<and>
     callback_GET env p str req = (json_response (IdpError e (q_error_description req)) 400, [])"
  by (auto simp: callback_GET_def or_null_def truthy_def split: option.splits)

lemma callback_config_error:
  "\<not> truthy (q_error req) \<Longrightarrow> getOAuthConfig env (Some (origin req)) = Inl m \<Longrightarrow>
   callback_GET env p str req = (json_response (ErrorMessage m) 500, [])"
  by (simp add: callback_GET_def or_null_def)

lemma callback_missing_parameter:
  "\<not> truthy (q_error req) \<Longrightarrow> getOAuthConfig env (Some (origin req)) = Inr config \<Longrightarrow>
   \<not> truthy (q_code req) \<or> \<not> truthy (q_state req) \<Longrightarrow>
   callback_GET env p str req = (json_response (ErrorMessage ''Missing code or state'') 400, [])"
  by (auto simp: callback_GET_def or_null_def truthy_def Let_def split: option.splits)

lemma callback_invalid_state:
  "\<not> truthy (q_error req) \<Longrightarrow> getOAuthConfig env (Some (origin req)) = Inr config \<Longrightarrow>
   truthy (q_code req) \<Longrightarrow> truthy (q_state req) \<Longrightarrow>
   \<not> truthy (cookie_get (req_cookies req) ''chutes_oauth_state'')
     \<or> q_state req \<noteq> cookie_get (req_cookies req) ''chutes_oauth_state'' \<Longrightarrow>
   callback_GET env p str req = (json_response (ErrorMessage ''Invalid state'') 400, [])"
  by (auto simp: callback_GET_def or_null_def truthy_def Let_def split: option.splits)

lemma callback_missing_verifier:
  "\<not> truthy (q_error req) \<Longrightarrow> getOAuthConfig env (Some (origin req)) = Inr config \<Longrightarrow>
   truthy (q_code req) \<Longrightarrow> truthy (q_state req) \<Longrightarrow>
   q_state req = cookie_get (req_cookies req) ''chutes_oauth_state'' \<Longrightarrow>
   \<not> truthy (cookie_get (req_cookies req) ''chutes_pkce_verifier'') \<Longrightarrow>
   callback_GET env p str req = (json_response (ErrorMessage ''Missing PKCE verifier'') 400, [])"
  by (auto simp: callback_GET_def or_null_def truthy_def Let_def split: option.splits)

lemma callback_reaches_exchange:
  "\<not> truthy (q_error req) \<Longrightarrow> getOAuthConfig env (Some (origin req)) = Inr config \<Longrightarrow>
   q_code req = Some code \<Longrightarrow> truthy (q_code req) \<Longrightarrow> truthy (q_state req) \<Longrightarrow>
   q_state req = cookie_get (req_cookies req) ''chutes_oauth_state'' \<Longrightarrow>
   cookie_get (req_cookies req) ''chutes_pkce_verifier'' = Some cv \<Longrightarrow> cv \<noteq> [] \<Longrightarrow>
   callback_GET env p str req =
     (case snd (exchangeCodeForTokens p code cv config) of
        Inl message \<Rightarrow>
          (json_response (ErrorMessage message) 500, fst (exchangeCodeForTokens p code cv config))
      | Inr None \<Rightarrow>
          (json_response (ErrorMessage null_token_result) 500,
           fst (exchangeCodeForTokens p code cv config))
      | Inr (Some tokenResult) \<Rightarrow>
          (fst (materialize p str req config tokenResult),
           fst (exchangeCodeForTokens p code cv config)
             @ snd (materialize p str req config tokenResult)))"
  by (auto simp: callback_GET_def or_null_def Let_def truthy_def
      split: option.splits sum.splits prod.splits)

lemma exchange_calls:
  "fst (exchangeCodeForTokens p code cv config) =
     [TokenPost (idpBaseUrl config @ ''/idp/token'')
        [(''grant_type'', ''authorization_code''), (''code'', code),
         (''redirect_uri'', redirectUri config), (''client_id'', clientId config),
         (''client_secret'', clientSecret config), (''code_verifier'', cv)]]"
  by (simp add: exchangeCodeForTokens_def Let_def)

lemma materialize_not_invalid_state:
  "fst (materialize p str req config t) \<noteq> json_response (ErrorMessage ''Invalid state'') 400"
proof (cases "or_null (access_token t)")
  case None
  then show ?thesis by (simp add: materialize_reject json_response_def)
next
  case (Some tok)
  from materialize_success [OF this, of p str req config]
  have "status (fst (materialize p str req config t)) = 307" by blast
  then show ?thesis by (auto simp: json_response_def)
qed


subsection \<open>Callback: state validation\<close>

text \<open>
  C2. A callback whose returned state differs from the stored one, or for which no state
  is stored, is always rejected and never makes a network call, the token exchange
  included. On every request that reaches the state check (no error parameter, the
  configuration resolves, code and state are both present) the rejection is
  \<^verbatim>\<open>Invalid state\<close> with status 400. It is given exactly when the stored state is absent
  (or empty) or is not the very same string as the returned state, and it is given
  without any network call.
\<close>

theorem state_mismatch_rejected_before_exchange:
  "(cookie_get (req_cookies req) ''chutes_oauth_state'' = None
      \<or> q_state req \<noteq> cookie_get (req_cookies req) ''chutes_oauth_state''
     \<longrightarrow> snd (callback_GET env p str req) = []
         \<and> status (fst (callback_GET env p str req)) \<noteq> 307)
   \<and> (\<not> truthy (q_error req) \<and> getOAuthConfig env (Some (origin req)) = Inr config
       \<and> truthy (q_code req) \<and> truthy (q_state req)
     \<longrightarrow> ((\<not> truthy (cookie_get (req_cookies req) ''chutes_oauth_state'')
            \<or> q_state req \<noteq> cookie_get (req_cookies req) ''chutes_oauth_state'')
          \<longleftrightarrow> fst (callback_GET env p str req) = json_response (ErrorMessage ''Invalid state'') 400)
         \<and> (fst (callback_GET env p str req) = json_response (ErrorMessage ''Invalid state'') 400
              \<longrightarrow> snd (callback_GET env p str req) = []))"
proof -
  let ?stored = "cookie_get (req_cookies req) ''chutes_oauth_state''"
  let ?out = "callback_GET env p str req"
  let ?invalid = "json_response (ErrorMessage ''Invalid state'') 400"
  have early: "snd ?out = [] \<and> status (fst ?out) \<noteq> 307"
    if h: "?stored = None \<or> q_state req \<noteq> ?stored"
  proof (cases "truthy (q_error req)")
    case True
    from callback_idp_error [OF this, of env p str] show ?thesis by auto
  next
    case noerr: False
    show ?thesis
    proof (cases "getOAuthConfig env (Some (origin req))")
      case (Inl m)
      with noerr show ?thesis by (simp add: callback_config_error)
    next
      case (Inr c)
      show ?thesis
      proof (cases "truthy (q_code req) \<and> truthy (q_state req)")
        case False
        then have "\<not> truthy (q_code req) \<or> \<not> truthy (q_state req)" by simp
        from callback_missing_parameter [OF noerr Inr this] show ?thesis by simp
      next
        case True
        from h have "\<not> truthy ?stored \<or> q_state req \<noteq> ?stored"
          by (auto simp: truthy_def)
        from callback_invalid_state [OF noerr Inr _ _ this] True show ?thesis by simp
      qed
    qed
  qed
  have stage: "(\<not> truthy ?stored \<or> q_state req \<noteq> ?stored) \<longleftrightarrow> fst ?out = ?invalid"
    and stage_calls: "fst ?out = ?invalid \<longrightarrow> snd ?out = []"
    if noerr: "\<not> truthy (q_error req)" and cfg: "getOAuthConfig env (Some (origin req)) = Inr config"
      and c: "truthy (q_code req)" and s: "truthy (q_state req)"
  proof -
    have fwd: "fst ?out = ?invalid \<and> snd ?out = []"
      if "\<not> truthy ?stored \<or> q_state req \<noteq> ?stored"
      using callback_invalid_state [OF noerr cfg c s that] by simp
    have bwd: "fst ?out \<noteq> ?invalid" if m: "\<not> (\<not> truthy ?stored \<or> q_state req \<noteq> ?stored)"
    proof (cases "truthy (cookie_get (req_cookies req) ''chutes_pkce_verifier'')")
      case False
      from m have "q_state req = ?stored" by simp
      from callback_missing_verifier [OF noerr cfg c s this False]
      show ?thesis by (simp add: json_response_def)
    next
      case True
      then obtain cv where cv: "cookie_get (req_cookies req) ''chutes_pkce_verifier'' = Some cv" "cv \<noteq> []"
        by (auto simp: truthy_def split: option.splits)
      from c obtain code where code: "q_code req = Some code"
        by (auto simp: truthy_def split: option.splits)
      from m have eq: "q_state req = ?stored" by simp
      show ?thesis
        unfolding callback_reaches_exchange [OF noerr cfg code c s eq cv]
        by (auto simp: json_response_def materialize_not_invalid_state [unfolded json_response_def]
            split: sum.splits option.splits)
    qed
    from fwd bwd show "(\<not> truthy ?stored \<or> q_state req \<noteq> ?stored) \<longleftrightarrow> fst ?out = ?invalid"
      by blast
    from fwd bwd show "fst ?out = ?invalid \<longrightarrow> snd ?out = []" by blast
  qed
  from early stage stage_calls show ?thesis by blast
qed

lemma example_config:
  "getOAuthConfig example_env (Some ''https://app.example.com'')
     = Inr \<lparr>idpBaseUrl = ''https://api.chutes.ai'', clientId = ''cid'', clientSecret = ''secret'',
            redirectUri = ''https://app.example.com/api/auth/chutes/callback'',
            scopes = ''openid profile chutes:invoke''\<rparr>"
  by (simp add: eval_defs fixture_defs)

text \<open>Stored state \<^verbatim>\<open>abc\<close>, returned state \<^verbatim>\<open>xyz\<close>, everything else valid.\<close>

theorem state_mismatch_rejected_before_exchange_witness:
  "callback_GET example_env
     (fake_idp (HttpResponse True (Json (Some (token_reply (Some ''tok123'') None (Some 120)))))
        (HttpResponse True (Json (Some example_user)))) sub
     (example_request\<lparr>q_state := Some ''xyz''\<rparr>)
   = (json_response (ErrorMessage ''Invalid state'') 400, [])"
proof -
  let ?p = "fake_idp (HttpResponse True (Json (Some (token_reply (Some ''tok123'') None (Some 120)))))
        (HttpResponse True (Json (Some example_user)))"
  let ?req = "example_request\<lparr>q_state := Some ''xyz''\<rparr>"
  note t = state_mismatch_rejected_before_exchange [of ?req example_env ?p sub]
  have d: "cookie_get (req_cookies ?req) ''chutes_oauth_state'' = None
      \<or> q_state ?req \<noteq> cookie_get (req_cookies ?req) ''chutes_oauth_state''"
    by (simp add: example_request_def cookie_get_def)
  have st: "\<not> truthy (q_error ?req)
       \<and> getOAuthConfig example_env (Some (origin ?req)) = Inr \<lparr>idpBaseUrl = ''https://api.chutes.ai'', clientId = ''cid'', clientSecret = ''secret'',
            redirectUri = ''https://app.example.com/api/auth/chutes/callback'',
            scopes = ''openid profile chutes:invoke''\<rparr>
       \<and> truthy (q_code ?req) \<and> truthy (q_state ?req)"
    using example_config by (simp add: example_request_def truthy_def)
  have m: "\<not> truthy (cookie_get (req_cookies ?req) ''chutes_oauth_state'')
            \<or> q_state ?req \<noteq> cookie_get (req_cookies ?req) ''chutes_oauth_state''"
    by (simp add: example_request_def cookie_get_def)
  have 1: "snd (callback_GET example_env ?p sub ?req) = []"
    by (rule t [THEN conjunct1, THEN mp, OF d, THEN conjunct1])
  have 2: "fst (callback_GET example_env ?p sub ?req) = json_response (ErrorMessage ''Invalid state'') 400"
    by (rule t [THEN conjunct2, THEN mp, OF st, THEN conjunct1, THEN iffD1, OF m])
  from 1 2 show ?thesis by (simp add: prod_eq_iff)
qed

lemma exchange_error_cases:
  "(error_description t = Some d \<and> d \<noteq> [] \<longrightarrow> exchange_error (Some t) = d)
   \<and> (\<not> truthy (error_description t) \<and> error t = Some e \<and> e \<noteq> [] \<longrightarrow> exchange_error (Some t) = e)
   \<and> (\<not> truthy (error_description t) \<and> \<not> truthy (error t)
        \<longrightarrow> exchange_error (Some t) = ''Token exchange failed'')"
  by (auto simp: exchange_error_def or_null_def or_else_def truthy_def split: option.splits)

subsection \<open>Callback: token exchange without access token\<close>

lemma exchange_result:
  "snd (exchangeCodeForTokens p code cv config)
     = (case token_endpoint p (idpBaseUrl config @ ''/idp/token'')
              [(''grant_type'', ''authorization_code''), (''code'', code),
               (''redirect_uri'', redirectUri config), (''client_id'', clientId config),
               (''client_secret'', clientSecret config), (''code_verifier'', cv)] of
          NetworkError msg \<Rightarrow> Inl msg
        | HttpResponse ok b \<Rightarrow>
           (case b of
              Unparsable msg \<Rightarrow> Inl msg
            | Json json \<Rightarrow> if \<not> ok then Inl (exchange_error json) else Inr json))"
  by (simp add: exchangeCodeForTokens_def Let_def)

text \<open>
  C4, as the code has it. Once the callback has reached the token exchange, it makes
  the one token request and answers by what comes back. A success status with a JSON
  object that has no (or an empty) \<^verbatim>\<open>access_token\<close> is rejected with status 500 and the
  message \<^verbatim>\<open>No access token returned\<close>. A non-success status is rejected with status 500
  as well; the message is the provider's \<^verbatim>\<open>error_description\<close>, else its \<^verbatim>\<open>error\<close>, else
  \<^verbatim>\<open>Token exchange failed\<close> when the body is JSON, and the parser's message when it is
  not; that answer is the answer for a missing access token exactly when its message is
  \<^verbatim>\<open>No access token returned\<close>. A success status with a body that is not JSON, or that is
  the JSON value \<^verbatim>\<open>null\<close>, and a request that fails altogether, are rejected with
  status 500 and the message of the error thrown. In all these cases no other network
  call is made.
\<close>

theorem missing_access_token_rejected:
  assumes "\<not> truthy (q_error req)"
    and "getOAuthConfig env (Some (origin req)) = Inr config"
    and "q_code req = Some code" and "code \<noteq> []"
    and "truthy (q_state req)"
    and "q_state req = cookie_get (req_cookies req) ''chutes_oauth_state''"
    and "cookie_get (req_cookies req) ''chutes_pkce_verifier'' = Some cv" and "cv \<noteq> []"
    and "token_endpoint p (idpBaseUrl config @ ''/idp/token'')
           [(''grant_type'', ''authorization_code''), (''code'', code),
            (''redirect_uri'', redirectUri config), (''client_id'', clientId config),
            (''client_secret'', clientSecret config), (''code_verifier'', cv)]
         = answer"
  shows "(answer = HttpResponse True (Json (Some t)) \<and> \<not> truthy (access_token t) \<longrightarrow>
           fst (callback_GET env p str req)
             = json_response (ErrorMessage ''No access token returned'') 500)
       \<and> (answer = HttpResponse False b \<longrightarrow>
           fst (callback_GET env p str req)
             = json_response
                 (ErrorMessage (case b of Unparsable msg \<Rightarrow> msg | Json j \<Rightarrow> exchange_error j)) 500
           \<and> (fst (callback_GET env p str req)
                = json_response (ErrorMessage ''No access token returned'') 500
              \<longleftrightarrow> (case b of Unparsable msg \<Rightarrow> msg | Json j \<Rightarrow> exchange_error j)
                    = ''No access token returned''))
       \<and> (answer = HttpResponse True (Unparsable m) \<longrightarrow>
           fst (callback_GET env p str req) = json_response (ErrorMessage m) 500)
       \<and> (answer = HttpResponse True (Json None) \<longrightarrow>
           fst (callback_GET env p str req) = json_response (ErrorMessage null_token_result) 500)
       \<and> (answer = NetworkError m \<longrightarrow>
           fst (callback_GET env p str req) = json_response (ErrorMessage m) 500)
       \<and> ((\<exists>t'. answer = HttpResponse True (Json (Some t')) \<and> truthy (access_token t'))
            \<or> snd (callback_GET env p str req)
                = [TokenPost (idpBaseUrl config @ ''/idp/token'')
                    [(''grant_type'', ''authorization_code''), (''code'', code),
                     (''redirect_uri'', redirectUri config), (''client_id'', clientId config),
                     (''client_secret'', clientSecret config), (''code_verifier'', cv)]])
       \<and> exchange_error None = ''Token exchange failed''
       \<and> (error_description j' = Some d \<and> d \<noteq> [] \<longrightarrow> exchange_error (Some j') = d)
       \<and> (\<not> truthy (error_description j') \<and> error j' = Some e \<and> e \<noteq> []
            \<longrightarrow> exchange_error (Some j') = e)
       \<and> (\<not> truthy (error_description j') \<and> \<not> truthy (error j')
            \<longrightarrow> exchange_error (Some j') = ''Token exchange failed'')"
proof -
  have c: "truthy (q_code req)" using assms(3,4) by (simp add: truthy_def)
  note r = callback_reaches_exchange [OF assms(1,2,3) c assms(5,6,7,8), of p str]
  note x = exchange_result [of p code cv config, unfolded assms(9)]
  have m: "\<And>t. \<not> truthy (access_token t) \<Longrightarrow> materialize p str req config t
      = (json_response (ErrorMessage ''No access token returned'') 500, [])"
    by (simp add: materialize_reject or_null_None)
  have 1: "answer = HttpResponse True (Json (Some t)) \<and> \<not> truthy (access_token t) \<longrightarrow>
           fst (callback_GET env p str req)
             = json_response (ErrorMessage ''No access token returned'') 500"
    unfolding r x using m by auto
  have 2: "answer = HttpResponse False b \<longrightarrow>
           fst (callback_GET env p str req)
             = json_response
                 (ErrorMessage (case b of Unparsable msg \<Rightarrow> msg | Json j \<Rightarrow> exchange_error j)) 500
           \<and> (fst (callback_GET env p str req)
                = json_response (ErrorMessage ''No access token returned'') 500
              \<longleftrightarrow> (case b of Unparsable msg \<Rightarrow> msg | Json j \<Rightarrow> exchange_error j)
                    = ''No access token returned'')"
    unfolding r x by (auto simp: json_response_def split: http_body.splits)
  have 3: "answer = HttpResponse True (Unparsable m) \<longrightarrow>
           fst (callback_GET env p str req) = json_response (ErrorMessage m) 500"
    unfolding r x by auto
  have 4: "answer = HttpResponse True (Json None) \<longrightarrow>
           fst (callback_GET env p str req) = json_response (ErrorMessage null_token_result) 500"
    unfolding r x by auto
  have 5: "answer = NetworkError m \<longrightarrow>
           fst (callback_GET env p str req) = json_response (ErrorMessage m) 500"
    unfolding r x by auto
  have 6: "(\<exists>t'. answer = HttpResponse True (Json (Some t')) \<and> truthy (access_token t'))
            \<or> snd (callback_GET env p str req)
                = [TokenPost (idpBaseUrl config @ ''/idp/token'')
                    [(''grant_type'', ''authorization_code''), (''code'', code),
                     (''redirect_uri'', redirectUri config), (''client_id'', clientId config),
                     (''client_secret'', clientSecret config), (''code_verifier'', cv)]]"
  proof (cases "\<exists>t'. answer = HttpResponse True (Json (Some t')) \<and> truthy (access_token t')")
    case True
    then show ?thesis by (rule disjI1)
  next
    case False
    have nt: "\<not> truthy (access_token t')" if "answer = HttpResponse True (Json (Some t'))" for t'
      using False that by simp
    have "snd (callback_GET env p str req)
                = [TokenPost (idpBaseUrl config @ ''/idp/token'')
                    [(''grant_type'', ''authorization_code''), (''code'', code),
                     (''redirect_uri'', redirectUri config), (''client_id'', clientId config),
                     (''client_secret'', clientSecret config), (''code_verifier'', cv)]]"
      unfolding r x exchange_calls
      by (simp add: m nt split: fetch_result.splits http_body.splits option.splits)
    then show ?thesis by (rule disjI2)
  qed
  have 7: "exchange_error None = ''Token exchange failed''"
    by (simp add: exchange_error_def)
  note 8 = exchange_error_cases [of j' d e]
  show ?thesis
    using 1 2 3 4 5 6 7 8 [THEN conjunct1] 8 [THEN conjunct2, THEN conjunct1]
      8 [THEN conjunct2, THEN conjunct2]
    by (intro conjI)
qed

lemma example_exchange_request:
  "token_endpoint (fake_idp r u) url form = r"
  by (simp add: fake_idp_def)

theorem missing_access_token_rejected_witness:
  "callback_GET example_env
     (fake_idp (HttpResponse True (Json (Some (token_reply None (Some ''r1'') (Some 120)))))
        (HttpResponse True (Json (Some example_user)))) sub example_request
   = (json_response (ErrorMessage ''No access token returned'') 500,
      [TokenPost ''https://api.chutes.ai/idp/token''
         [(''grant_type'', ''authorization_code''), (''code'', ''c0de''),
          (''redirect_uri'', ''https://app.example.com/api/auth/chutes/callback''),
          (''client_id'', ''cid''), (''client_secret'', ''secret''), (''code_verifier'', ''v3rifier'')]])"
proof -
  let ?t = "token_reply None (Some ''r1'') (Some 120)"
  let ?p = "fake_idp (HttpResponse True (Json (Some ?t))) (HttpResponse True (Json (Some example_user)))"
  let ?config = "\<lparr>idpBaseUrl = ''https://api.chutes.ai'', clientId = ''cid'', clientSecret = ''secret'',
            redirectUri = ''https://app.example.com/api/auth/chutes/callback'',
            scopes = ''openid profile chutes:invoke''\<rparr>"
  have 1: "\<not> truthy (q_error example_request)" by (simp add: example_request_def truthy_def)
  have 2: "getOAuthConfig example_env (Some (origin example_request)) = Inr ?config"
    using example_config by (simp add: example_request_def)
  have 3: "q_code example_request = Some ''c0de''" by (simp add: example_request_def)
  have 4: "''c0de'' \<noteq> []" by simp
  have 5: "truthy (q_state example_request)" by (simp add: example_request_def truthy_def)
  have 6: "q_state example_request = cookie_get (req_cookies example_request) ''chutes_oauth_state''"
    by (simp add: example_request_def cookie_get_def)
  have 7: "cookie_get (req_cookies example_request) ''chutes_pkce_verifier'' = Some ''v3rifier''"
    by (simp add: example_request_def cookie_get_def)
  have 8: "''v3rifier'' \<noteq> []" by simp
  have 9: "token_endpoint ?p (idpBaseUrl ?config @ ''/idp/token'')
           [(''grant_type'', ''authorization_code''), (''code'', ''c0de''),
            (''redirect_uri'', redirectUri ?config), (''client_id'', clientId ?config),
            (''client_secret'', clientSecret ?config), (''code_verifier'', ''v3rifier'')]
         = HttpResponse True (Json (Some ?t))"
    by (rule example_exchange_request)
  note T = missing_access_token_rejected
    [where t = "token_reply None (Some ''r1'') (Some 120)" and str = sub, OF 1 2 3 4 5 6 7 8 9]
  have h: "HttpResponse True (Json (Some ?t)) = HttpResponse True (Json (Some ?t))
      \<and> \<not> truthy (access_token ?t)"
    by (simp add: token_reply_def truthy_def)
  have f: "fst (callback_GET example_env ?p sub example_request)
      = json_response (ErrorMessage ''No access token returned'') 500"
    by (rule T [THEN conjunct1, THEN mp, OF h])
  have "(\<exists>t'. HttpResponse True (Json (Some ?t)) = HttpResponse True (Json (Some t'))
            \<and> truthy (access_token t'))
        \<or> snd (callback_GET example_env ?p sub example_request)
            = [TokenPost (idpBaseUrl ?config @ ''/idp/token'')
                [(''grant_type'', ''authorization_code''), (''code'', ''c0de''),
                 (''redirect_uri'', redirectUri ?config), (''client_id'', clientId ?config),
                 (''client_secret'', clientSecret ?config), (''code_verifier'', ''v3rifier'')]]"
    by (rule T [THEN conjunct2, THEN conjunct2, THEN conjunct2, THEN conjunct2, THEN conjunct2,
          THEN conjunct1])
  then have c: "snd (callback_GET example_env ?p sub example_request)
            = [TokenPost ''https://api.chutes.ai/idp/token''
                [(''grant_type'', ''authorization_code''), (''code'', ''c0de''),
                 (''redirect_uri'', ''https://app.example.com/api/auth/chutes/callback''),
                 (''client_id'', ''cid''), (''client_secret'', ''secret''),
                 (''code_verifier'', ''v3rifier'')]]"
    by (simp add: token_reply_def truthy_def)
  from f c show ?thesis by (simp add: prod_eq_iff)
qed

text \<open>
  The statement of the spec fails in two places. A failed exchange whose description reads
  \<^verbatim>\<open>No access token returned\<close> gets the very answer of a successful exchange without
  access token, so the two are not told apart; and a successful response whose body is
  the JSON value \<^verbatim>\<open>null\<close> has no access token but is answered with another message.
\<close>

theorem missing_access_token_not_distinct_counterexample:
  "fst (callback_GET example_env
     (fake_idp (HttpResponse False
        (Json (Some (error_reply (Some ''invalid_grant'') (Some ''No access token returned'')))))
        (NetworkError ''down'')) sub example_request)
   = fst (callback_GET example_env
     (fake_idp (HttpResponse True (Json (Some (token_reply None None None))))
        (NetworkError ''down'')) sub example_request)
   \<and> fst (callback_GET example_env (fake_idp (HttpResponse True (Json None)) (NetworkError ''down''))
        sub example_request)
     \<noteq> json_response (ErrorMessage ''No access token returned'') 500"
  by (simp add: eval_defs fixture_defs null_token_result_def)

lemma fetchUserInfo_result:
  "fetchUserInfo p config tok =
     ([UserinfoGet (idpBaseUrl config @ ''/idp/userinfo'') (''Bearer '' @ tok)],
      (case userinfo_endpoint p (idpBaseUrl config @ ''/idp/userinfo'') (''Bearer '' @ tok) of
         NetworkError msg \<Rightarrow> Inl msg
       | HttpResponse ok b \<Rightarrow>
           if \<not> ok then Inr None
           else (case b of Unparsable msg \<Rightarrow> Inl msg | Json u \<Rightarrow> Inr u)))"
  by (simp add: fetchUserInfo_def Let_def)

subsection \<open>Session query\<close>

text \<open>
  C8. Without a stored access token (absent, or empty) the session query reports
  signed-out. With one it always answers status 200 with \<^verbatim>\<open>signedIn: true\<close>: together
  with the cached profile when the profile cookie parses to one, without any network
  call; and when there is no cached profile (or it does not parse), after one request
  to the userinfo endpoint, with the profile fetched, or with \<^verbatim>\<open>user: null\<close> when the
  request throws, is answered with a non-success status or with a body that is not
  JSON. When the configuration cannot be resolved the fetch is not made and the answer
  is signed-in with \<^verbatim>\<open>user: null\<close> as well.
\<close>

theorem session_query:
  "(\<not> truthy (cookie_get jar ''chutes_access_token'')
      \<longrightarrow> session_GET env p parse jar = (json_response SignedOut 200, []))
   \<and> (cookie_get jar ''chutes_access_token'' = Some tok \<and> tok \<noteq> [] \<longrightarrow>
        (\<exists>u calls. session_GET env p parse jar = (json_response (SignedIn u) 200, calls))
        \<and> (cookie_get jar ''chutes_userinfo'' = Some s \<and> s \<noteq> [] \<and> parse s = Some cached
             \<longrightarrow> session_GET env p parse jar = (json_response (SignedIn (Some cached)) 200, []))
        \<and> ((\<not> truthy (cookie_get jar ''chutes_userinfo'')
              \<or> (\<exists>c. cookie_get jar ''chutes_userinfo'' = Some c \<and> parse c = None))
             \<and> getOAuthConfig env None = Inr config
             \<longrightarrow> session_GET env p parse jar
                  = (json_response
                      (SignedIn
                        (case userinfo_endpoint p (idpBaseUrl config @ ''/idp/userinfo'')
                                (''Bearer '' @ tok) of
                           HttpResponse True (Json fetched) \<Rightarrow> fetched
                         | _ \<Rightarrow> None)) 200,
                     [UserinfoGet (idpBaseUrl config @ ''/idp/userinfo'') (''Bearer '' @ tok)]))
        \<and> ((\<not> truthy (cookie_get jar ''chutes_userinfo'')
              \<or> (\<exists>c. cookie_get jar ''chutes_userinfo'' = Some c \<and> parse c = None))
             \<and> getOAuthConfig env None = Inl m
             \<longrightarrow> session_GET env p parse jar = (json_response (SignedIn None) 200, [])))"
proof -
  have out: "\<not> truthy (cookie_get jar ''chutes_access_token'')
      \<longrightarrow> session_GET env p parse jar = (json_response SignedOut 200, [])"
    by (simp add: session_GET_def Let_def or_null_def)
  have inn: "\<exists>u calls. session_GET env p parse jar = (json_response (SignedIn u) 200, calls)"
    if "cookie_get jar ''chutes_access_token'' = Some tok" "tok \<noteq> []"
    using that
    by (auto simp: session_GET_def Let_def or_null_def truthy_def
        split: option.splits sum.splits prod.splits)
  have cache: "session_GET env p parse jar = (json_response (SignedIn (Some cached)) 200, [])"
    if "cookie_get jar ''chutes_access_token'' = Some tok" "tok \<noteq> []"
      "cookie_get jar ''chutes_userinfo'' = Some s" "s \<noteq> []" "parse s = Some cached"
    using that by (simp add: session_GET_def Let_def or_null_def truthy_def)
  have nocache: "(case or_null (cookie_get jar ''chutes_userinfo'') of None \<Rightarrow> None | Some s \<Rightarrow> parse s) = None"
    if "\<not> truthy (cookie_get jar ''chutes_userinfo'')
         \<or> (\<exists>c. cookie_get jar ''chutes_userinfo'' = Some c \<and> parse c = None)"
    using that by (auto simp: or_null_def split: option.splits)
  have fetch: "session_GET env p parse jar
                  = (json_response
                      (SignedIn
                        (case userinfo_endpoint p (idpBaseUrl config @ ''/idp/userinfo'')
                                (''Bearer '' @ tok) of
                           HttpResponse True (Json fetched) \<Rightarrow> fetched
                         | _ \<Rightarrow> None)) 200,
                     [UserinfoGet (idpBaseUrl config @ ''/idp/userinfo'') (''Bearer '' @ tok)])"
    if "cookie_get jar ''chutes_access_token'' = Some tok" "tok \<noteq> []"
      "\<not> truthy (cookie_get jar ''chutes_userinfo'')
         \<or> (\<exists>c. cookie_get jar ''chutes_userinfo'' = Some c \<and> parse c = None)"
      "getOAuthConfig env None = Inr config"
    using that(1,2,4) nocache [OF that(3)]
    by (simp add: session_GET_def Let_def or_null_def truthy_def fetchUserInfo_result
        split: fetch_result.splits http_body.splits bool.splits)
  have noconfig: "session_GET env p parse jar = (json_response (SignedIn None) 200, [])"
    if "cookie_get jar ''chutes_access_token'' = Some tok" "tok \<noteq> []"
      "\<not> truthy (cookie_get jar ''chutes_userinfo'')
         \<or> (\<exists>c. cookie_get jar ''chutes_userinfo'' = Some c \<and> parse c = None)"
      "getOAuthConfig env None = Inl m"
    using that(1,2,4) nocache [OF that(3)]
    by (simp add: session_GET_def Let_def or_null_def truthy_def)
  from out inn cache fetch noconfig show ?thesis by blast
qed


lemma example_config_no_origin:
  "getOAuthConfig example_env None
     = Inr \<lparr>idpBaseUrl = ''https://api.chutes.ai'', clientId = ''cid'', clientSecret = ''secret'',
            redirectUri = ''http://localhost:3000/api/auth/chutes/callback'',
            scopes = ''openid profile chutes:invoke''\<rparr>"
  by (simp add: eval_defs fixture_defs)

theorem session_query_witness:
  "session_GET example_env (fake_idp (NetworkError ''down'') (NetworkError ''down''))
      (\<lambda>s. None) Map.empty
     = (json_response SignedOut 200, [])
   \<and> session_GET example_env (fake_idp (NetworkError ''down'') (NetworkError ''down''))
        (\<lambda>s. if s = ''user-1'' then Some example_user else None)
        [''chutes_access_token'' \<mapsto> ''tok123'', ''chutes_userinfo'' \<mapsto> ''user-1'']
     = (json_response (SignedIn (Some example_user)) 200, [])
   \<and> session_GET example_env (fake_idp (NetworkError ''down'') (NetworkError ''down''))
        (\<lambda>s. None) [''chutes_access_token'' \<mapsto> ''tok123'']
     = (json_response (SignedIn None) 200,
        [UserinfoGet ''https://api.chutes.ai/idp/userinfo'' ''Bearer tok123''])"
proof -
  let ?p = "fake_idp (NetworkError ''down'') (NetworkError ''down'')"
  let ?parse = "\<lambda>s. if s = ''user-1'' then Some example_user else None"
  let ?jar2 = "[''chutes_access_token'' \<mapsto> ''tok123'', ''chutes_userinfo'' \<mapsto> ''user-1'']"
  let ?jar3 = "[''chutes_access_token'' \<mapsto> ''tok123'']"
  let ?config = "\<lparr>idpBaseUrl = ''https://api.chutes.ai'', clientId = ''cid'', clientSecret = ''secret'',
            redirectUri = ''http://localhost:3000/api/auth/chutes/callback'',
            scopes = ''openid profile chutes:invoke''\<rparr>"
  have 1: "session_GET example_env ?p (\<lambda>s. None) Map.empty = (json_response SignedOut 200, [])"
    by (rule session_query [THEN conjunct1, THEN mp]) (simp add: cookie_get_def truthy_def)
  have a2: "cookie_get ?jar2 ''chutes_access_token'' = Some ''tok123'' \<and> ''tok123'' \<noteq> []"
    by (simp add: cookie_get_def)
  have c2: "cookie_get ?jar2 ''chutes_userinfo'' = Some ''user-1'' \<and> ''user-1'' \<noteq> []
      \<and> ?parse ''user-1'' = Some example_user"
    by (simp add: cookie_get_def)
  have 2: "session_GET example_env ?p ?parse ?jar2 = (json_response (SignedIn (Some example_user)) 200, [])"
    by (rule session_query [where parse = ?parse and jar = ?jar2 and s = "''user-1''"
            and cached = example_user and tok = "''tok123''",
          THEN conjunct2, THEN mp, OF a2, THEN conjunct2, THEN conjunct1, THEN mp, OF c2])
  have a3: "cookie_get ?jar3 ''chutes_access_token'' = Some ''tok123'' \<and> ''tok123'' \<noteq> []"
    by (simp add: cookie_get_def)
  have c3: "(\<not> truthy (cookie_get ?jar3 ''chutes_userinfo'')
              \<or> (\<exists>c. cookie_get ?jar3 ''chutes_userinfo'' = Some c \<and> (\<lambda>s. None) c = None))
             \<and> getOAuthConfig example_env None = Inr ?config"
    using example_config_no_origin by (simp add: cookie_get_def truthy_def)
  from session_query [THEN conjunct2, THEN mp, OF a3, THEN conjunct2, THEN conjunct2,
          THEN conjunct1, THEN mp, OF c3, of ?p]
  have 3: "session_GET example_env ?p (\<lambda>s. None) ?jar3
     = (json_response (SignedIn None) 200,
        [UserinfoGet ''https://api.chutes.ai/idp/userinfo'' ''Bearer tok123''])"
    by (simp add: fake_idp_def)
  from 1 2 3 show ?thesis by (intro conjI)
qed

lemma refreshTokens_calls:
  "fst (refreshTokens p rt config)
     = [TokenPost (idpBaseUrl config @ ''/idp/token'')
         [(''grant_type'', ''refresh_token''), (''refresh_token'', rt),
          (''client_id'', clientId config), (''client_secret'', clientSecret config)]]"
  by (simp add: refreshTokens_def Let_def)

subsection \<open>Token refresh\<close>

text \<open>
  C5, on the refresh operation modelled from the spec. \<^verbatim>\<open>refreshTokens\<close> makes one POST to
  the token endpoint with \<^verbatim>\<open>grant_type=refresh_token\<close> and the refresh token it was given;
  for the same answer of the endpoint it gives the result \<^verbatim>\<open>exchangeCodeForTokens\<close> gives
  (the same error or the same body). A refresh of the session sends the stored refresh
  token, and when the answer has an access token but no refresh token, the refresh
  token stored before is still stored afterwards.
\<close>

theorem refresh_request_errors_and_retention:
  "fst (refreshTokens p rt config)
     = [TokenPost (idpBaseUrl config @ ''/idp/token'')
         [(''grant_type'', ''refresh_token''), (''refresh_token'', rt),
          (''client_id'', clientId config), (''client_secret'', clientSecret config)]]
   \<and> (token_endpoint p (idpBaseUrl config @ ''/idp/token'')
         [(''grant_type'', ''refresh_token''), (''refresh_token'', rt),
          (''client_id'', clientId config), (''client_secret'', clientSecret config)]
       = token_endpoint p' (idpBaseUrl config @ ''/idp/token'')
           [(''grant_type'', ''authorization_code''), (''code'', code),
            (''redirect_uri'', redirectUri config), (''client_id'', clientId config),
            (''client_secret'', clientSecret config), (''code_verifier'', cv)]
      \<longrightarrow> snd (refreshTokens p rt config) = snd (exchangeCodeForTokens p' code cv config))
   \<and> (cookie_get jar ''chutes_refresh_token'' = Some rt \<and> rt \<noteq> [] \<longrightarrow>
        snd (refresh_session p config jar) = fst (refreshTokens p rt config)
        \<and> (token_endpoint p (idpBaseUrl config @ ''/idp/token'')
              [(''grant_type'', ''refresh_token''), (''refresh_token'', rt),
               (''client_id'', clientId config), (''client_secret'', clientSecret config)]
             = HttpResponse True (Json (Some t))
            \<and> access_token t = Some a \<and> a \<noteq> [] \<and> \<not> truthy (refresh_token t)
           \<longrightarrow> (\<exists>cs. fst (refresh_session p config jar) = Inr cs
                 \<and> cookie_get (apply_cookies cs jar) ''chutes_refresh_token'' = Some rt)))"
proof -
  have same: "snd (refreshTokens p rt config) = snd (exchangeCodeForTokens p' code cv config)"
    if "token_endpoint p (idpBaseUrl config @ ''/idp/token'')
         [(''grant_type'', ''refresh_token''), (''refresh_token'', rt),
          (''client_id'', clientId config), (''client_secret'', clientSecret config)]
       = token_endpoint p' (idpBaseUrl config @ ''/idp/token'')
           [(''grant_type'', ''authorization_code''), (''code'', code),
            (''redirect_uri'', redirectUri config), (''client_id'', clientId config),
            (''client_secret'', clientSecret config), (''code_verifier'', cv)]"
    using that by (simp add: refreshTokens_def exchangeCodeForTokens_def Let_def)
  have sess: "snd (refresh_session p config jar) = fst (refreshTokens p rt config)"
    if "cookie_get jar ''chutes_refresh_token'' = Some rt" "rt \<noteq> []"
    using that
    by (auto simp: refresh_session_def or_null_def truthy_def Let_def
        split: option.splits sum.splits prod.splits)
  have keep: "\<exists>cs. fst (refresh_session p config jar) = Inr cs
                 \<and> cookie_get (apply_cookies cs jar) ''chutes_refresh_token'' = Some rt"
    if "cookie_get jar ''chutes_refresh_token'' = Some rt" "rt \<noteq> []"
      "token_endpoint p (idpBaseUrl config @ ''/idp/token'')
              [(''grant_type'', ''refresh_token''), (''refresh_token'', rt),
               (''client_id'', clientId config), (''client_secret'', clientSecret config)]
             = HttpResponse True (Json (Some t))"
      "access_token t = Some a" "a \<noteq> []" "\<not> truthy (refresh_token t)"
    using that
    by (simp add: refresh_session_def refreshTokens_def or_null_def truthy_def Let_def
        apply_cookies_def apply_cookie_def cookies_set_def cookie_get_def)
  from same sess keep show ?thesis by (simp add: refreshTokens_calls)
qed

text \<open>The scenario of the spec: the answer is \<^verbatim>\<open>{access_token: "tok2"}\<close>, the stored refresh
  token is \<^verbatim>\<open>r1\<close>.\<close>

theorem refresh_request_errors_and_retention_witness:
  "(\<exists>cs. fst (refresh_session (fake_idp (HttpResponse True (Json (Some (token_reply (Some ''tok2'') None None))))
                (NetworkError ''down''))
             \<lparr>idpBaseUrl = ''https://api.chutes.ai'', clientId = ''cid'', clientSecret = ''secret'',
               redirectUri = ''http://localhost:3000/api/auth/chutes/callback'',
               scopes = ''openid profile chutes:invoke''\<rparr>
             [''chutes_access_token'' \<mapsto> ''tok1'', ''chutes_refresh_token'' \<mapsto> ''r1'']) = Inr cs
      \<and> cookie_get (apply_cookies cs
            [''chutes_access_token'' \<mapsto> ''tok1'', ''chutes_refresh_token'' \<mapsto> ''r1''])
          ''chutes_refresh_token'' = Some ''r1'')"
proof -
  let ?t = "token_reply (Some ''tok2'') None None"
  let ?p = "fake_idp (HttpResponse True (Json (Some ?t))) (NetworkError ''down'')"
  let ?config = "\<lparr>idpBaseUrl = ''https://api.chutes.ai'', clientId = ''cid'', clientSecret = ''secret'',
               redirectUri = ''http://localhost:3000/api/auth/chutes/callback'',
               scopes = ''openid profile chutes:invoke''\<rparr>"
  let ?jar = "[''chutes_access_token'' \<mapsto> ''tok1'', ''chutes_refresh_token'' \<mapsto> ''r1'']"
  have h1: "cookie_get ?jar ''chutes_refresh_token'' = Some ''r1'' \<and> ''r1'' \<noteq> []"
    by (simp add: cookie_get_def)
  have h2: "token_endpoint ?p (idpBaseUrl ?config @ ''/idp/token'')
              [(''grant_type'', ''refresh_token''), (''refresh_token'', ''r1''),
               (''client_id'', clientId ?config), (''client_secret'', clientSecret ?config)]
             = HttpResponse True (Json (Some ?t))
            \<and> access_token ?t = Some ''tok2'' \<and> ''tok2'' \<noteq> [] \<and> \<not> truthy (refresh_token ?t)"
    by (simp add: fake_idp_def token_reply_def truthy_def)
  show ?thesis
    by (rule refresh_request_errors_and_retention [THEN conjunct2, THEN conjunct2, THEN mp, OF h1,
          THEN conjunct2, THEN mp, OF h2])
qed

end
